theory Spec2Isabelle
  imports Main
begin

section \<open>The binary prepared-statement binding layer of mysql+++.h\<close>

subsection \<open>Bind descriptor\<close>

text \<open>
  The field types the wrappers use (\<open>enum_field_types\<close> of the client library). The
  first constructor is the one whose numeric value is zero, which is what a descriptor
  holds after \<open>memset(bind, 0x00, sizeof(MYSQL_BIND))\<close>.
\<close>

datatype enum_field_types =
    MYSQL_TYPE_DECIMAL
  | MYSQL_TYPE_TINY
  | MYSQL_TYPE_SHORT
  | MYSQL_TYPE_LONG
  | MYSQL_TYPE_FLOAT
  | MYSQL_TYPE_DOUBLE
  | MYSQL_TYPE_NULL
  | MYSQL_TYPE_LONGLONG
  | MYSQL_TYPE_STRING

text \<open>
  What \<open>bind->buffer\<close> points to. A wrapper only ever stores one of three addresses in
  it: the bound application variable (\<open>data\<close>), its private staging scalar
  (\<open>&pdata\<close>), or the bytes of the bound string (\<open>data->data()\<close>).
\<close>

datatype buffer_ptr = buffer_nullptr | buffer_data | buffer_pdata | buffer_string_bytes

text \<open>
  The fields of \<open>MYSQL_BIND\<close> that the wrappers write. The two pointer fields
  \<open>length\<close> and \<open>is_null\<close> are either null or the address of the descriptor's own
  \<open>length_value\<close> / \<open>is_null_value\<close>; they are modelled as flags.
\<close>

record MYSQL_BIND =
  length_ptr :: bool
  is_null_ptr :: bool
  buffer :: buffer_ptr
  buffer_length :: nat
  buffer_type :: enum_field_types
  is_unsigned :: bool
  is_null_value :: bool
  length_value :: nat

definition memset_zero :: MYSQL_BIND where
  "memset_zero = \<lparr> length_ptr = False, is_null_ptr = False, buffer = buffer_nullptr,
     buffer_length = 0, buffer_type = MYSQL_TYPE_DECIMAL, is_unsigned = False,
     is_null_value = False, length_value = 0 \<rparr>"

subsection \<open>Typed bind wrappers\<close>

text \<open>The scalar types \<open>T\<close> for which \<open>my_bind<T>\<close> and \<open>my_bind<optional<T>>\<close> exist.\<close>

datatype number_type =
    T_uint8 | T_int8 | T_uint16 | T_int16 | T_uint32 | T_int32 | T_uint64 | T_int64
  | T_float | T_double | T_bool

fun mysql_type :: "number_type \<Rightarrow> enum_field_types" where
  "mysql_type T_uint8 = MYSQL_TYPE_TINY"
| "mysql_type T_int8 = MYSQL_TYPE_TINY"
| "mysql_type T_uint16 = MYSQL_TYPE_SHORT"
| "mysql_type T_int16 = MYSQL_TYPE_SHORT"
| "mysql_type T_uint32 = MYSQL_TYPE_LONG"
| "mysql_type T_int32 = MYSQL_TYPE_LONG"
| "mysql_type T_uint64 = MYSQL_TYPE_LONGLONG"
| "mysql_type T_int64 = MYSQL_TYPE_LONGLONG"
| "mysql_type T_float = MYSQL_TYPE_FLOAT"
| "mysql_type T_double = MYSQL_TYPE_DOUBLE"
| "mysql_type T_bool = MYSQL_TYPE_TINY"

text \<open>\<open>std::is_unsigned<T>::value\<close>; it is true for \<open>bool\<close> and false for the floating types.\<close>

fun std_is_unsigned :: "number_type \<Rightarrow> bool" where
  "std_is_unsigned T_uint8 = True"
| "std_is_unsigned T_int8 = False"
| "std_is_unsigned T_uint16 = True"
| "std_is_unsigned T_int16 = False"
| "std_is_unsigned T_uint32 = True"
| "std_is_unsigned T_int32 = False"
| "std_is_unsigned T_uint64 = True"
| "std_is_unsigned T_int64 = False"
| "std_is_unsigned T_float = False"
| "std_is_unsigned T_double = False"
| "std_is_unsigned T_bool = True"

text \<open>
  A wrapper together with the memory its \<open>data\<close> pointer refers to. The type \<open>'n\<close>
  stands for the scalar values.
  \<^item> \<open>my_number_bind T v\<close>: \<open>T* data\<close> points to a variable holding \<open>v\<close>;
  \<^item> \<open>my_optional_number_bind T ov p\<close>: \<open>optional<T>* data\<close> points to \<open>ov\<close>, the
    member \<open>pdata\<close> holds \<open>p\<close>;
  \<^item> \<open>my_bind_string sp\<close>: \<open>std::string* data\<close> is \<open>nullptr\<close> (\<open>None\<close>) or points to
    a string (the code tests the pointer in \<open>pre_execute\<close>);
  \<^item> \<open>my_bind_optional_string os\<close>: \<open>optional<std::string>* data\<close> points to \<open>os\<close>.
\<close>

datatype 'n my_bind =
    my_number_bind number_type 'n
  | my_optional_number_bind number_type "'n option" 'n
  | my_bind_string "string option"
  | my_bind_optional_string "string option"

datatype error =
    out_of_range string
  | bad_alloc
  | runtime_error string
  | bad_optional_access
  | null_pointer_dereference
  | vector_index_out_of_bounds

text \<open>
  \<open>std::string::resize(n)\<close>: cut to \<open>n\<close> bytes, or pad with zero bytes up to \<open>n\<close>.
  Sizes are natural numbers; a resize that fails to allocate is not modelled.
\<close>

definition resize :: "nat \<Rightarrow> string \<Rightarrow> string" where
  "resize n s = take n s @ replicate (n - length s) (CHR 0x00)"

text \<open>\<open>my_number_bind::update\<close>\<close>

definition update :: "number_type \<Rightarrow> MYSQL_BIND" where
  "update T = memset_zero \<lparr> buffer := buffer_data, buffer_type := mysql_type T,
     is_null_value := False, is_unsigned := std_is_unsigned T \<rparr>"

text \<open>
  The hooks take the wrapper and the descriptor its \<open>bind\<close> pointer refers to, and
  return both as the call leaves them.
\<close>

fun my_bind_pre_execute :: "'n my_bind \<Rightarrow> MYSQL_BIND \<Rightarrow> MYSQL_BIND \<times> 'n my_bind" where
  "my_bind_pre_execute (my_number_bind T v) b = (update T, my_number_bind T v)"
| "my_bind_pre_execute (my_optional_number_bind T ov p) b =
     (let p' = (case ov of Some v \<Rightarrow> v | None \<Rightarrow> p) in
      (memset_zero \<lparr> buffer := buffer_pdata, buffer_type := mysql_type T,
         is_null_value := (ov \<noteq> None), is_unsigned := std_is_unsigned T \<rparr>,
       my_optional_number_bind T ov p'))"
| "my_bind_pre_execute (my_bind_string sp) b =
     ((case sp of
         Some s \<Rightarrow> memset_zero \<lparr> buffer := buffer_string_bytes, buffer_length := length s,
                     buffer_type := MYSQL_TYPE_STRING, is_null_value := False,
                     length_value := length s \<rparr>
       | None \<Rightarrow> memset_zero \<lparr> buffer_type := MYSQL_TYPE_NULL \<rparr>)
        \<lparr> length_ptr := True, is_null_ptr := True \<rparr>,
      my_bind_string sp)"
| "my_bind_pre_execute (my_bind_optional_string os) b =
     ((case os of
         Some s \<Rightarrow> memset_zero \<lparr> buffer := buffer_string_bytes, buffer_length := length s,
                     buffer_type := MYSQL_TYPE_STRING, is_null_value := False,
                     length_value := length s \<rparr>
       | None \<Rightarrow> memset_zero \<lparr> is_null_value := True \<rparr>)
        \<lparr> length_ptr := True, is_null_ptr := True \<rparr>,
      my_bind_optional_string os)"

text \<open>\<open>post_execute\<close> is the empty base implementation for every wrapper.\<close>

definition my_bind_post_execute :: "'n my_bind \<Rightarrow> MYSQL_BIND \<Rightarrow> MYSQL_BIND \<times> 'n my_bind" where
  "my_bind_post_execute w b = (b, w)"

fun my_bind_pre_fetch :: "'n my_bind \<Rightarrow> MYSQL_BIND \<Rightarrow> error + MYSQL_BIND \<times> 'n my_bind" where
  "my_bind_pre_fetch (my_number_bind T v) b = Inr (update T, my_number_bind T v)"
| "my_bind_pre_fetch (my_optional_number_bind T ov p) b =
     Inr (memset_zero \<lparr> buffer := buffer_pdata, buffer_type := mysql_type T,
            is_unsigned := std_is_unsigned T, is_null_ptr := True \<rparr>,
          my_optional_number_bind T ov p)"
| "my_bind_pre_fetch (my_bind_string sp) b =
     (case sp of
        None \<Rightarrow> Inl null_pointer_dereference
      | Some s \<Rightarrow>
          (let s' = resize 1 s in
           Inr (memset_zero \<lparr> buffer_type := MYSQL_TYPE_STRING, buffer := buffer_string_bytes,
                  buffer_length := length s', is_null_value := False,
                  length_ptr := True, is_null_ptr := True \<rparr>,
                my_bind_string (Some s'))))"
| "my_bind_pre_fetch (my_bind_optional_string os) b =
     (let pdata = resize 1 [] in
      Inr (memset_zero \<lparr> buffer_type := MYSQL_TYPE_STRING, buffer := buffer_string_bytes,
             buffer_length := length pdata, is_null_value := False,
             length_ptr := True, is_null_ptr := True \<rparr>,
           my_bind_optional_string (Some pdata)))"

text \<open>\<open>post_fetch\<close> returns the "fetch this column again" flag.\<close>

fun my_bind_post_fetch ::
  "'n my_bind \<Rightarrow> MYSQL_BIND \<Rightarrow> error + bool \<times> MYSQL_BIND \<times> 'n my_bind" where
  "my_bind_post_fetch (my_number_bind T v) b = Inr (False, b, my_number_bind T v)"
| "my_bind_post_fetch (my_optional_number_bind T ov p) b =
     (if is_null_value b then Inr (False, b, my_optional_number_bind T None p)
      else Inr (False, b, my_optional_number_bind T (Some p) p))"
| "my_bind_post_fetch (my_bind_string sp) b =
     (case sp of
        None \<Rightarrow> Inl null_pointer_dereference
      | Some s \<Rightarrow>
          (if length_value b > 0 then
             (let s' = resize (length_value b) s in
              Inr (True, b \<lparr> buffer := buffer_string_bytes, buffer_length := length s' \<rparr>,
                   my_bind_string (Some s')))
           else Inr (False, b, my_bind_string (Some []))))"
| "my_bind_post_fetch (my_bind_optional_string os) b =
     (if is_null_value b then Inr (False, b, my_bind_optional_string None)
      else
        (case os of
           None \<Rightarrow> Inl bad_optional_access
         | Some pdata \<Rightarrow>
             (if length_value b > 0 then
                (let pdata' = resize (length_value b) pdata in
                 Inr (True, b \<lparr> buffer := buffer_string_bytes, buffer_length := length pdata' \<rparr>,
                      my_bind_optional_string (Some pdata')))
              else Inr (False, b, my_bind_optional_string (Some [])))))"

text \<open>\<open>post_refetch\<close> is the empty base implementation for every wrapper.\<close>

definition my_bind_post_refetch :: "'n my_bind \<Rightarrow> MYSQL_BIND \<Rightarrow> MYSQL_BIND \<times> 'n my_bind" where
  "my_bind_post_refetch w b = (b, w)"

subsection \<open>Bind set\<close>

text \<open>
  \<open>mysql_bind_set\<close> keeps two vectors of the same size, \<open>_binds_mysql\<close> and
  \<open>_wrappers\<close>; \<open>set_variable\<close> is the only place that assigns a wrapper's \<open>bind\<close>
  pointer, and it stores \<open>&_binds_mysql[idx]\<close> in the wrapper it puts at
  \<open>_wrappers[idx]\<close>. A bind set is therefore a list of slots, slot \<open>i\<close> being the pair
  of \<open>_binds_mysql[i]\<close> and \<open>_wrappers[i]\<close>; \<open>None\<close> is the null \<open>unique_ptr\<close>.
\<close>

type_synonym 'n slot = "MYSQL_BIND \<times> 'n my_bind option"

text \<open>The constructor: both vectors resized to \<open>size\<close> (here \<open>n\<close>) value-initialised elements.\<close>

definition mysql_bind_set :: "nat \<Rightarrow> 'n slot list" where
  "mysql_bind_set n = replicate n (memset_zero, None)"

definition binds :: "'n slot list \<Rightarrow> MYSQL_BIND list" where
  "binds bs = map fst bs"

definition size_bind_set :: "'n slot list \<Rightarrow> nat" where
  "size_bind_set bs = length (map snd bs)"

fun mysql_bind_set_pre_execute :: "'n slot list \<Rightarrow> error + 'n slot list" where
  "mysql_bind_set_pre_execute [] = Inr []"
| "mysql_bind_set_pre_execute ((b, e) # rest) =
     (case e of
        None \<Rightarrow> Inl null_pointer_dereference
      | Some w \<Rightarrow>
          (let (b', w') = my_bind_pre_execute w b in
           case mysql_bind_set_pre_execute rest of
             Inl err \<Rightarrow> Inl err
           | Inr rest' \<Rightarrow> Inr ((b', Some w') # rest')))"

fun mysql_bind_set_post_execute :: "'n slot list \<Rightarrow> error + 'n slot list" where
  "mysql_bind_set_post_execute [] = Inr []"
| "mysql_bind_set_post_execute ((b, e) # rest) =
     (case e of
        None \<Rightarrow> Inl null_pointer_dereference
      | Some w \<Rightarrow>
          (let (b', w') = my_bind_post_execute w b in
           case mysql_bind_set_post_execute rest of
             Inl err \<Rightarrow> Inl err
           | Inr rest' \<Rightarrow> Inr ((b', Some w') # rest')))"

fun mysql_bind_set_pre_fetch :: "'n slot list \<Rightarrow> error + 'n slot list" where
  "mysql_bind_set_pre_fetch [] = Inr []"
| "mysql_bind_set_pre_fetch ((b, e) # rest) =
     (case e of
        None \<Rightarrow> Inl null_pointer_dereference
      | Some w \<Rightarrow>
          (case my_bind_pre_fetch w b of
             Inl err \<Rightarrow> Inl err
           | Inr (b', w') \<Rightarrow>
               (case mysql_bind_set_pre_fetch rest of
                  Inl err \<Rightarrow> Inl err
                | Inr rest' \<Rightarrow> Inr ((b', Some w') # rest'))))"

text \<open>
  The loop of \<open>post_fetch\<close> from index \<open>i\<close> on, over the slots from \<open>i\<close> on: the result is
  the vector \<open>res\<close> of the indices pushed, in order.
\<close>

fun post_fetch_loop :: "nat \<Rightarrow> 'n slot list \<Rightarrow> error + nat list \<times> 'n slot list" where
  "post_fetch_loop i [] = Inr ([], [])"
| "post_fetch_loop i ((b, e) # rest) =
     (case e of
        None \<Rightarrow> Inl null_pointer_dereference
      | Some w \<Rightarrow>
          (case my_bind_post_fetch w b of
             Inl err \<Rightarrow> Inl err
           | Inr (again, b', w') \<Rightarrow>
               (case post_fetch_loop (Suc i) rest of
                  Inl err \<Rightarrow> Inl err
                | Inr (res, rest') \<Rightarrow>
                    Inr ((if again then [i] else []) @ res, (b', Some w') # rest'))))"

definition mysql_bind_set_post_fetch :: "'n slot list \<Rightarrow> error + nat list \<times> 'n slot list" where
  "mysql_bind_set_post_fetch bs = post_fetch_loop 0 bs"

fun mysql_bind_set_post_refetch :: "nat list \<Rightarrow> 'n slot list \<Rightarrow> error + 'n slot list" where
  "mysql_bind_set_post_refetch [] bs = Inr bs"
| "mysql_bind_set_post_refetch (e # items) bs =
     (if e \<ge> length bs then Inl vector_index_out_of_bounds
      else
        (case snd (bs ! e) of
           None \<Rightarrow> Inl null_pointer_dereference
         | Some w \<Rightarrow>
             (let (b', w') = my_bind_post_refetch w (fst (bs ! e)) in
              mysql_bind_set_post_refetch items (bs[e := (b', Some w')]))))"

text \<open>
  The variable handed to \<open>set_variable\<close>: its static type \<open>T\<close> and what it holds now.
\<close>

datatype 'n variable =
    number_variable number_type 'n
  | optional_number_variable number_type "'n option"
  | string_variable string
  | optional_string_variable "string option"

text \<open>
  \<open>make_unique<my_bind<T>>()\<close> followed by \<open>wrap->data = &arg\<close>. The wrapper is created
  by \<open>new T()\<close>, which zero-initialises a class without a user-provided constructor, so
  \<open>pdata\<close> starts as zero; the address of a reference is never null.
\<close>

fun make_unique_my_bind :: "'n::zero variable \<Rightarrow> 'n my_bind" where
  "make_unique_my_bind (number_variable T v) = my_number_bind T v"
| "make_unique_my_bind (optional_number_variable T ov) = my_optional_number_bind T ov 0"
| "make_unique_my_bind (string_variable s) = my_bind_string (Some s)"
| "make_unique_my_bind (optional_string_variable os) = my_bind_optional_string os"

text \<open>
  \<open>set_variable\<close> returns the exception thrown, if any, and the bind set as the call
  leaves it.
\<close>

definition set_variable ::
  "nat \<Rightarrow> 'n::zero variable \<Rightarrow> 'n slot list \<Rightarrow> error option \<times> 'n slot list" where
  "set_variable idx arg bs =
     (if idx \<ge> size_bind_set bs then (Some (out_of_range ''Invalid binding index''), bs)
      else (None, bs[idx := (fst (bs ! idx), Some (make_unique_my_bind arg))]))"

text \<open>\<open>bind_variables\<close>: \<open>set_variable\<close> for each argument, from index 0, left to right.\<close>

fun bind_variables_impl ::
  "nat \<Rightarrow> 'n::zero variable list \<Rightarrow> 'n slot list \<Rightarrow> error option \<times> 'n slot list" where
  "bind_variables_impl idx [] bs = (None, bs)"
| "bind_variables_impl idx (arg # args) bs =
     (case set_variable idx arg bs of
        (Some err, bs') \<Rightarrow> (Some err, bs')
      | (None, bs') \<Rightarrow> bind_variables_impl (idx + 1) args bs')"

definition bind_variables :: "'n::zero variable list \<Rightarrow> 'n slot list \<Rightarrow> error option \<times> 'n slot list" where
  "bind_variables args bs = bind_variables_impl 0 args bs"

subsection \<open>The engine\<close>

text \<open>
  The client library is outside the header. Its calls are recorded in a history, and the
  engine is a parameter: any functions from the history (the call being answered last) to
  what the call returns and delivers.
\<close>

datatype 'n engine_call =
    mysql_stmt_init
  | mysql_stmt_prepare string
  | mysql_stmt_bind_param "'n slot list"
  | mysql_stmt_execute
  | mysql_stmt_bind_result "'n slot list"
  | mysql_stmt_fetch
  | mysql_stmt_fetch_column nat
  | mysql_stmt_close

text \<open>What the engine delivers for one column of a row.\<close>

record 'n column =
  col_is_null :: bool
  col_length :: nat
  col_number :: 'n
  col_bytes :: string

record 'n engine =
  stmt_allocated :: "'n engine_call list \<Rightarrow> bool"
  return_code :: "'n engine_call list \<Rightarrow> int"
  mysql_stmt_error :: "'n engine_call list \<Rightarrow> string"
  mysql_stmt_param_count :: "'n engine_call list \<Rightarrow> nat"
  mysql_stmt_result_metadata :: "'n engine_call list \<Rightarrow> nat option"
  delivered :: "'n engine_call list \<Rightarrow> nat \<Rightarrow> 'n column option"

definition MYSQL_NO_DATA :: int where
  "MYSQL_NO_DATA = 100"

definition MYSQL_DATA_TRUNCATED :: int where
  "MYSQL_DATA_TRUNCATED = 101"

text \<open>
  The engine writes a column through the pointers of the descriptor only: the null flag
  through \<open>is_null\<close>, the true length through \<open>length\<close>, and at most \<open>buffer_length\<close>
  bytes (or the scalar) through \<open>buffer\<close>. It cannot change the size of a string.
\<close>

definition overwrite :: "string \<Rightarrow> string \<Rightarrow> string" where
  "overwrite xs s = take (length s) xs @ drop (length xs) s"

fun write_buffer :: "MYSQL_BIND \<Rightarrow> 'n column \<Rightarrow> 'n my_bind \<Rightarrow> 'n my_bind" where
  "write_buffer b c (my_number_bind T v) =
     (if buffer b = buffer_data then my_number_bind T (col_number c) else my_number_bind T v)"
| "write_buffer b c (my_optional_number_bind T ov p) =
     (if buffer b = buffer_pdata then my_optional_number_bind T ov (col_number c)
      else my_optional_number_bind T ov p)"
| "write_buffer b c (my_bind_string sp) =
     (if buffer b = buffer_string_bytes
      then my_bind_string (map_option (overwrite (take (buffer_length b) (col_bytes c))) sp)
      else my_bind_string sp)"
| "write_buffer b c (my_bind_optional_string os) =
     (if buffer b = buffer_string_bytes
      then my_bind_optional_string (map_option (overwrite (take (buffer_length b) (col_bytes c))) os)
      else my_bind_optional_string os)"

definition engine_store :: "'n column option \<Rightarrow> 'n slot \<Rightarrow> 'n slot" where
  "engine_store co sl =
     (case co of
        None \<Rightarrow> sl
      | Some c \<Rightarrow>
          (let b = fst sl;
               b1 = (if is_null_ptr b then b \<lparr> is_null_value := col_is_null c \<rparr> else b)
           in if col_is_null c then (b1, snd sl)
              else ((if length_ptr b then b1 \<lparr> length_value := col_length c \<rparr> else b1),
                    map_option (write_buffer b c) (snd sl))))"

fun engine_store_row :: "(nat \<Rightarrow> 'n column option) \<Rightarrow> nat \<Rightarrow> 'n slot list \<Rightarrow> 'n slot list" where
  "engine_store_row row i [] = []"
| "engine_store_row row i (sl # rest) = engine_store (row i) sl # engine_store_row row (Suc i) rest"

subsection \<open>Prepared statement\<close>

record 'n prepared_stmt =
  param_binds :: "'n slot list"
  result_binds :: "'n slot list"

text \<open>
  The constructor. The members start as \<open>param_binds(0)\<close> and \<open>result_binds(0)\<close>; an
  exception leaves no statement.
\<close>

definition prepared_stmt_ctor ::
  "'n engine \<Rightarrow> 'n engine_call list \<Rightarrow> string \<Rightarrow> error + 'n engine_call list \<times> 'n prepared_stmt" where
  "prepared_stmt_ctor eng h query =
     (let h1 = h @ [mysql_stmt_init] in
      if \<not> stmt_allocated eng h1 then Inl bad_alloc
      else
        (let h2 = h1 @ [mysql_stmt_prepare query] in
         if return_code eng h2 \<noteq> 0
         then Inl (runtime_error (''Failed to prepare stmt: '' @ mysql_stmt_error eng h2))
         else
           (let param_count = mysql_stmt_param_count eng h2;
                st = \<lparr> param_binds = mysql_bind_set param_count, result_binds = mysql_bind_set 0 \<rparr>
            in case mysql_stmt_result_metadata eng h2 of
                 Some result_count \<Rightarrow> Inr (h2, st \<lparr> result_binds := mysql_bind_set result_count \<rparr>)
               | None \<Rightarrow> Inr (h2, st))))"

definition bind_param ::
  "'n::zero variable list \<Rightarrow> 'n prepared_stmt \<Rightarrow> error option \<times> 'n prepared_stmt" where
  "bind_param args st =
     (case bind_variables args (param_binds st) of
        (r, bs) \<Rightarrow> (r, st \<lparr> param_binds := bs \<rparr>))"

definition bind_result ::
  "'n::zero variable list \<Rightarrow> 'n prepared_stmt \<Rightarrow> error option \<times> 'n prepared_stmt" where
  "bind_result args st =
     (case bind_variables args (result_binds st) of
        (r, bs) \<Rightarrow> (r, st \<lparr> result_binds := bs \<rparr>))"

definition execute ::
  "'n engine \<Rightarrow> 'n engine_call list \<Rightarrow> 'n prepared_stmt
     \<Rightarrow> error + bool \<times> 'n engine_call list \<times> 'n prepared_stmt" where
  "execute eng h st =
     (case mysql_bind_set_pre_execute (param_binds st) of
        Inl err \<Rightarrow> Inl err
      | Inr pb \<Rightarrow>
          (let st1 = st \<lparr> param_binds := pb \<rparr>;
               h1 = h @ [mysql_stmt_bind_param pb]
           in if return_code eng h1 \<noteq> 0 then Inr (False, h1, st1)
              else
                (let h2 = h1 @ [mysql_stmt_execute] in
                 if return_code eng h2 \<noteq> 0 then Inr (False, h2, st1)
                 else
                   (case mysql_bind_set_post_execute pb of
                      Inl err \<Rightarrow> Inl err
                    | Inr pb' \<Rightarrow> Inr (True, h2, st1 \<lparr> param_binds := pb' \<rparr>)))))"

text \<open>
  The loop of \<open>fetch\<close> over the indices \<open>post_fetch\<close> returned: one
  \<open>mysql_stmt_fetch_column\<close> per index, stopping with \<open>False\<close> at the first that fails.
\<close>

fun refetch_columns ::
  "'n engine \<Rightarrow> 'n engine_call list \<Rightarrow> 'n slot list \<Rightarrow> nat list
     \<Rightarrow> error + bool \<times> 'n engine_call list \<times> 'n slot list" where
  "refetch_columns eng h bs [] = Inr (True, h, bs)"
| "refetch_columns eng h bs (i # refetch) =
     (if i \<ge> length bs then Inl vector_index_out_of_bounds
      else
        (let h1 = h @ [mysql_stmt_fetch_column i];
             bs1 = bs[i := engine_store (delivered eng h1 i) (bs ! i)]
         in if return_code eng h1 \<noteq> 0 then Inr (False, h1, bs1)
            else refetch_columns eng h1 bs1 refetch))"

definition fetch ::
  "'n engine \<Rightarrow> 'n engine_call list \<Rightarrow> 'n prepared_stmt
     \<Rightarrow> error + bool \<times> 'n engine_call list \<times> 'n prepared_stmt" where
  "fetch eng h st =
     (case mysql_bind_set_pre_fetch (result_binds st) of
        Inl err \<Rightarrow> Inl err
      | Inr rb1 \<Rightarrow>
          (let h1 = h @ [mysql_stmt_bind_result rb1] in
           if return_code eng h1 \<noteq> 0 then Inr (False, h1, st \<lparr> result_binds := rb1 \<rparr>)
           else
             (let h2 = h1 @ [mysql_stmt_fetch];
                  rc = return_code eng h2;
                  rb2 = engine_store_row (delivered eng h2) 0 rb1
              in if rc = MYSQL_DATA_TRUNCATED \<or> rc = 0 then
                   (case mysql_bind_set_post_fetch rb2 of
                      Inl err \<Rightarrow> Inl err
                    | Inr (refetch, rb3) \<Rightarrow>
                        (case refetch_columns eng h2 rb3 refetch of
                           Inl err \<Rightarrow> Inl err
                         | Inr (False, h3, rb4) \<Rightarrow> Inr (False, h3, st \<lparr> result_binds := rb4 \<rparr>)
                         | Inr (True, h3, rb4) \<Rightarrow>
                             (case mysql_bind_set_post_refetch refetch rb4 of
                                Inl err \<Rightarrow> Inl err
                              | Inr rb5 \<Rightarrow> Inr (True, h3, st \<lparr> result_binds := rb5 \<rparr>))))
                 else Inr (False, h2, st \<lparr> result_binds := rb2 \<rparr>))))"

subsection \<open>The connection mutex\<close>

text \<open>
  What one operation of a statement does to the connection, in order: it locks
  \<open>con.mutex\<close>, unlocks it, or makes an engine call. The calls are the ones the history
  records, and \<open>mysql_stmt_close\<close>, which the deleter of \<open>stmt\<close> makes.
\<close>

datatype 'n event = Lock | Unlock | Call "'n engine_call"

text \<open>
  A function body that starts with \<open>std::unique_lock<std::mutex> lck(con.mutex)\<close> and
  makes the engine calls \<open>calls\<close>: the lock is taken first, and the destructor of \<open>lck\<close>
  releases it when the body is left, by \<open>return\<close> or by an exception.
\<close>

definition with_lock :: "'n engine_call list \<Rightarrow> 'n event list" where
  "with_lock calls = Lock # map Call calls @ [Unlock]"

text \<open>
  \<open>execute\<close> and \<open>fetch\<close> are such bodies; their engine calls are the ones they add to
  the history.
\<close>

definition execute_events ::
  "'n engine \<Rightarrow> 'n engine_call list \<Rightarrow> 'n prepared_stmt \<Rightarrow> error + 'n event list" where
  "execute_events eng h st =
     (case execute eng h st of
        Inl err \<Rightarrow> Inl err
      | Inr (r, h', st') \<Rightarrow> Inr (with_lock (drop (length h) h')))"

definition fetch_events ::
  "'n engine \<Rightarrow> 'n engine_call list \<Rightarrow> 'n prepared_stmt \<Rightarrow> error + 'n event list" where
  "fetch_events eng h st =
     (case fetch eng h st of
        Inl err \<Rightarrow> Inl err
      | Inr (r, h', st') \<Rightarrow> Inr (with_lock (drop (length h) h')))"

text \<open>
  The destructor: \<open>stmt.reset()\<close> under the lock runs the deleter, which closes the
  handle; the member \<open>stmt\<close> is null when it is destroyed afterwards.
\<close>

definition destructor_events :: "'n event list" where
  "destructor_events = with_lock [mysql_stmt_close]"

text \<open>
  The constructor. Its body holds the lock in the local \<open>lck\<close>. When it throws, the
  locals of the body are destroyed first, which releases the lock, and the members of
  the unfinished object after them: the deleter of \<open>stmt\<close> then calls
  \<open>mysql_stmt_close\<close> if the handle is not null. The handle is null when
  \<open>bad_alloc\<close> is thrown and not null when the preparation failed.
\<close>

definition prepared_stmt_ctor_events ::
  "'n engine \<Rightarrow> 'n engine_call list \<Rightarrow> string \<Rightarrow> 'n event list" where
  "prepared_stmt_ctor_events eng h query =
     (let h1 = h @ [mysql_stmt_init] in
      if \<not> stmt_allocated eng h1 then with_lock [mysql_stmt_init]
      else
        (let h2 = h1 @ [mysql_stmt_prepare query] in
         if return_code eng h2 \<noteq> 0
         then with_lock [mysql_stmt_init, mysql_stmt_prepare query] @ [Call mysql_stmt_close]
         else with_lock [mysql_stmt_init, mysql_stmt_prepare query]))"

text \<open>
  An operation is guarded when it leaves the mutex free and makes every engine call
  between taking the lock and releasing it; \<open>held\<close> says whether it holds the lock now.
\<close>

fun guarded_from :: "bool \<Rightarrow> 'n event list \<Rightarrow> bool" where
  "guarded_from held [] = (\<not> held)"
| "guarded_from held (Lock # es) = (\<not> held \<and> guarded_from True es)"
| "guarded_from held (Unlock # es) = (held \<and> guarded_from False es)"
| "guarded_from held (Call c # es) = (held \<and> guarded_from held es)"

definition guarded :: "'n event list \<Rightarrow> bool" where
  "guarded es = guarded_from False es"

text \<open>
  Two threads, \<open>True\<close> and \<open>False\<close>, each running one operation: a schedule lists their
  events in the order they happen, and \<open>thread_trace\<close> gives back what one thread does.
\<close>

definition thread_trace :: "bool \<Rightarrow> (bool \<times> 'n event) list \<Rightarrow> 'n event list" where
  "thread_trace t s = map snd (filter (\<lambda>x. fst x = t) s)"

text \<open>
  The mutex admits a schedule when a thread takes the lock only while no thread holds
  it, and releases it only while holding it; \<open>owner\<close> is the thread that holds it.
\<close>

fun admissible :: "bool option \<Rightarrow> (bool \<times> 'n event) list \<Rightarrow> bool" where
  "admissible owner [] = True"
| "admissible owner ((t, Lock) # s) = (owner = None \<and> admissible (Some t) s)"
| "admissible owner ((t, Unlock) # s) = (owner = Some t \<and> admissible None s)"
| "admissible owner ((t, Call c) # s) = admissible owner s"

text \<open>Every engine call of a schedule is made by the thread that holds the mutex.\<close>

fun exclusive :: "bool option \<Rightarrow> (bool \<times> 'n event) list \<Rightarrow> bool" where
  "exclusive owner [] = True"
| "exclusive owner ((t, Lock) # s) = exclusive (Some t) s"
| "exclusive owner ((t, Unlock) # s) = exclusive None s"
| "exclusive owner ((t, Call c) # s) = (owner = Some t \<and> exclusive owner s)"

subsection \<open>Predicates used to state the properties\<close>

text \<open>
  A slot as \<open>set_variable\<close> leaves it: it has a wrapper, and the wrapper's \<open>data\<close> pointer
  is not null.
\<close>

fun bound_slot :: "'n slot \<Rightarrow> bool" where
  "bound_slot (b, None) = False"
| "bound_slot (b, Some (my_bind_string None)) = False"
| "bound_slot (b, Some w) = True"

text \<open>A bound slot whose optional string, if it is one, holds a string.\<close>

fun fetch_ready :: "'n slot \<Rightarrow> bool" where
  "fetch_ready (b, None) = False"
| "fetch_ready (b, Some (my_bind_string None)) = False"
| "fetch_ready (b, Some (my_bind_optional_string None)) = False"
| "fetch_ready (b, Some w) = True"

text \<open>The descriptor both string wrappers set up in \<open>pre_fetch\<close>: a one-byte buffer.\<close>

definition provisional_bind :: MYSQL_BIND where
  "provisional_bind = memset_zero \<lparr> buffer_type := MYSQL_TYPE_STRING,
     buffer := buffer_string_bytes, buffer_length := 1, is_null_value := False,
     length_ptr := True, is_null_ptr := True \<rparr>"

subsection \<open>Example engines and statements\<close>

text \<open>
  An engine for the examples: it answers each call with the return code \<open>code\<close> gives
  for that call, reports one parameter and two result columns, and delivers the integer
  42 or the three bytes \<open>abc\<close> for every column.
\<close>

definition example_engine :: "(int engine_call \<Rightarrow> int) \<Rightarrow> int engine" where
  "example_engine code = \<lparr> stmt_allocated = (\<lambda>h. True), return_code = (\<lambda>h. code (last h)),
     mysql_stmt_error = (\<lambda>h. ''syntax error''), mysql_stmt_param_count = (\<lambda>h. 1),
     mysql_stmt_result_metadata = (\<lambda>h. Some 2),
     delivered = (\<lambda>h i. Some \<lparr> col_is_null = False, col_length = 3, col_number = 42,
                                col_bytes = ''abc'' \<rparr>) \<rparr>"

fun all_succeed :: "int engine_call \<Rightarrow> int" where
  "all_succeed c = 0"

fun prepare_fails :: "int engine_call \<Rightarrow> int" where
  "prepare_fails (mysql_stmt_prepare q) = 1"
| "prepare_fails c = 0"

fun bind_param_fails :: "int engine_call \<Rightarrow> int" where
  "bind_param_fails (mysql_stmt_bind_param bs) = 1"
| "bind_param_fails c = 0"

fun execute_fails :: "int engine_call \<Rightarrow> int" where
  "execute_fails mysql_stmt_execute = 1"
| "execute_fails c = 0"

fun bind_result_fails :: "int engine_call \<Rightarrow> int" where
  "bind_result_fails (mysql_stmt_bind_result bs) = 1"
| "bind_result_fails c = 0"

fun no_more_rows :: "int engine_call \<Rightarrow> int" where
  "no_more_rows mysql_stmt_fetch = MYSQL_NO_DATA"
| "no_more_rows c = 0"

fun fetch_column_fails :: "int engine_call \<Rightarrow> int" where
  "fetch_column_fails (mysql_stmt_fetch_column i) = 1"
| "fetch_column_fails c = 0"

text \<open>
  A statement with one parameter, an \<open>optional<int32_t>\<close> holding 7, and two result
  columns bound to an \<open>int32_t\<close> and a \<open>std::string\<close>.
\<close>

definition example_stmt :: "int prepared_stmt" where
  "example_stmt = \<lparr>
     param_binds = [(memset_zero, Some (my_optional_number_bind T_int32 (Some 7) 0))],
     result_binds = [(memset_zero, Some (my_number_bind T_int32 0)),
                     (memset_zero, Some (my_bind_string (Some [])))] \<rparr>"

section \<open>Auxiliary facts\<close>

lemma length_resize: "length (resize n s) = n"
  by (simp add: resize_def)

lemma resize_one: "resize (Suc 0) s = (case s of [] \<Rightarrow> [CHR 0x00] | c # cs \<Rightarrow> [c])"
  by (cases s) (simp_all add: resize_def)

lemma bound_slot_iff:
  "bound_slot sl \<longleftrightarrow> (\<exists>w. snd sl = Some w \<and> w \<noteq> my_bind_string None)"
  by (cases sl rule: bound_slot.cases) auto

lemma fetch_ready_iff:
  "fetch_ready sl \<longleftrightarrow>
     (\<exists>w. snd sl = Some w \<and> w \<noteq> my_bind_string None \<and> w \<noteq> my_bind_optional_string None)"
  by (cases sl rule: fetch_ready.cases) auto

lemma pre_execute_keeps_data:
  "w \<noteq> my_bind_string None \<Longrightarrow> snd (my_bind_pre_execute w b) \<noteq> my_bind_string None"
  by (cases w) (auto simp: Let_def)

lemma bind_set_pre_execute_bound:
  "list_all bound_slot bs \<Longrightarrow>
   \<exists>bs'. mysql_bind_set_pre_execute bs = Inr bs' \<and> length bs' = length bs \<and> list_all bound_slot bs'"
proof (induction bs)
  case Nil
  then show ?case by simp
next
  case (Cons sl bs)
  obtain b e where sl: "sl = (b, e)" by (cases sl)
  from Cons.prems sl obtain w where e: "e = Some w" and w: "w \<noteq> my_bind_string None"
    by (auto simp: bound_slot_iff)
  from Cons obtain bs' where bs': "mysql_bind_set_pre_execute bs = Inr bs'"
    "length bs' = length bs" "list_all bound_slot bs'" by auto
  have "snd (my_bind_pre_execute w b) \<noteq> my_bind_string None"
    using w by (rule pre_execute_keeps_data)
  then have "bound_slot (fst (my_bind_pre_execute w b), Some (snd (my_bind_pre_execute w b)))"
    by (simp add: bound_slot_iff)
  then show ?case using sl e bs' by (simp add: split_beta)
qed

lemma bind_set_post_execute_bound:
  "list_all bound_slot bs \<Longrightarrow> mysql_bind_set_post_execute bs = Inr bs"
proof (induction bs)
  case Nil
  then show ?case by simp
next
  case (Cons sl bs)
  obtain b e where sl: "sl = (b, e)" by (cases sl)
  from Cons.prems sl obtain w where e: "e = Some w"
    by (auto simp: bound_slot_iff)
  from Cons have "mysql_bind_set_post_execute bs = Inr bs" by simp
  then show ?case using sl e by (simp add: my_bind_post_execute_def)
qed

lemma bind_set_pre_execute_null:
  "i < length bs \<Longrightarrow> snd (bs ! i) = None \<Longrightarrow> mysql_bind_set_pre_execute bs = Inl null_pointer_dereference"
proof (induction bs arbitrary: i)
  case Nil
  then show ?case by simp
next
  case (Cons sl bs)
  obtain b e where sl: "sl = (b, e)" by (cases sl)
  show ?case
  proof (cases i)
    case 0
    with Cons.prems sl show ?thesis by simp
  next
    case (Suc j)
    with Cons have "mysql_bind_set_pre_execute bs = Inl null_pointer_dereference" by simp
    then show ?thesis using sl by (simp add: split_beta split: option.split)
  qed
qed

lemma pre_fetch_error: "my_bind_pre_fetch w b = Inl err \<Longrightarrow> err = null_pointer_dereference"
  by (cases w) (auto simp: Let_def split: option.splits)

lemma bind_set_pre_fetch_null:
  "i < length bs \<Longrightarrow> snd (bs ! i) = None \<Longrightarrow> mysql_bind_set_pre_fetch bs = Inl null_pointer_dereference"
proof (induction bs arbitrary: i)
  case Nil
  then show ?case by simp
next
  case (Cons sl bs)
  obtain b e where sl: "sl = (b, e)" by (cases sl)
  show ?case
  proof (cases i)
    case 0
    with Cons.prems sl show ?thesis by simp
  next
    case (Suc j)
    with Cons have "mysql_bind_set_pre_fetch bs = Inl null_pointer_dereference" by simp
    then show ?thesis using sl
      by (auto split: option.split sum.split dest: pre_fetch_error)
  qed
qed

lemma bind_set_pre_execute_iff:
  "(\<exists>bs'. mysql_bind_set_pre_execute bs = Inr bs') \<longleftrightarrow> (\<forall>i<length bs. snd (bs ! i) \<noteq> None)"
proof (induction bs)
  case Nil
  then show ?case by simp
next
  case (Cons sl bs)
  obtain b e where sl: "sl = (b, e)" by (cases sl)
  show ?case
    using Cons sl
    by (auto simp: split_beta All_less_Suc2 split: option.splits sum.splits)
qed

lemma mysql_bind_set_nth: "i < n \<Longrightarrow> mysql_bind_set n ! i = (memset_zero, None)"
  by (simp add: mysql_bind_set_def)

lemma size_mysql_bind_set: "size_bind_set (mysql_bind_set n) = n"
  by (simp add: mysql_bind_set_def size_bind_set_def)

lemma set_variable_out_of_range:
  "idx \<ge> size_bind_set bs \<Longrightarrow> set_variable idx arg bs = (Some (out_of_range ''Invalid binding index''), bs)"
  by (simp add: set_variable_def)

lemma set_variable_in_range:
  assumes "idx < size_bind_set bs"
  shows "\<exists>bs'. set_variable idx arg bs = (None, bs')
           \<and> size_bind_set bs' = size_bind_set bs
           \<and> binds bs' = binds bs
           \<and> snd (bs' ! idx) = Some (make_unique_my_bind arg)
           \<and> (\<forall>j. j \<noteq> idx \<longrightarrow> bs' ! j = bs ! j)"
  using assms
  by (simp add: set_variable_def size_bind_set_def binds_def map_update list_update_same_conv)

lemma set_variable_other:
  "j \<noteq> idx \<Longrightarrow> snd (set_variable idx arg bs) ! j = bs ! j"
  by (simp add: set_variable_def)

lemma pre_fetch_ready:
  "w \<noteq> my_bind_string None \<Longrightarrow>
   \<exists>b' w'. my_bind_pre_fetch w b = Inr (b', w') \<and> fetch_ready (b', Some w')"
  by (cases w) (auto simp: Let_def fetch_ready_iff)

lemma bind_set_pre_fetch_ready:
  "list_all bound_slot bs \<Longrightarrow>
   \<exists>bs'. mysql_bind_set_pre_fetch bs = Inr bs' \<and> length bs' = length bs \<and> list_all fetch_ready bs'"
proof (induction bs)
  case Nil
  then show ?case by simp
next
  case (Cons sl bs)
  obtain b e where sl: "sl = (b, e)" by (cases sl)
  from Cons.prems sl obtain w where e: "e = Some w" and w: "w \<noteq> my_bind_string None"
    by (auto simp: bound_slot_iff)
  from Cons obtain bs' where bs': "mysql_bind_set_pre_fetch bs = Inr bs'"
    "length bs' = length bs" "list_all fetch_ready bs'" by auto
  from pre_fetch_ready [OF w] obtain b' w' where
    "my_bind_pre_fetch w b = Inr (b', w')" "fetch_ready (b', Some w')" by blast
  then show ?case using sl e bs' by simp
qed

lemma write_buffer_keeps:
  "(write_buffer b c w = my_bind_string None) = (w = my_bind_string None)"
  "(write_buffer b c w = my_bind_optional_string None) = (w = my_bind_optional_string None)"
  by (cases w; simp)+

lemma engine_store_ready: "fetch_ready sl \<Longrightarrow> fetch_ready (engine_store co sl)"
  by (cases co) (auto simp: engine_store_def fetch_ready_iff Let_def write_buffer_keeps)

lemma engine_store_bound: "bound_slot sl \<Longrightarrow> bound_slot (engine_store co sl)"
  by (cases co) (auto simp: engine_store_def bound_slot_iff Let_def write_buffer_keeps)

lemma engine_store_row_ready:
  "list_all fetch_ready bs \<Longrightarrow> list_all fetch_ready (engine_store_row row i bs)"
  by (induction bs arbitrary: i) (simp_all add: engine_store_ready)

lemma post_fetch_ready:
  "fetch_ready (b, Some w) \<Longrightarrow>
   \<exists>again b' w'. my_bind_post_fetch w b = Inr (again, b', w') \<and> bound_slot (b', Some w')"
  by (cases w) (auto simp: Let_def fetch_ready_iff bound_slot_iff)

lemma post_fetch_loop_ready:
  "list_all fetch_ready bs \<Longrightarrow>
   \<exists>refetch bs'. post_fetch_loop k bs = Inr (refetch, bs') \<and> length bs' = length bs
      \<and> list_all bound_slot bs' \<and> (\<forall>j\<in>set refetch. k \<le> j \<and> j < k + length bs)"
proof (induction bs arbitrary: k)
  case Nil
  then show ?case by simp
next
  case (Cons sl bs)
  obtain b e where sl: "sl = (b, e)" by (cases sl)
  from Cons.prems sl obtain w where e: "e = Some w" and r: "fetch_ready (b, Some w)"
    by (auto simp: fetch_ready_iff)
  from post_fetch_ready [OF r] obtain again b' w' where
    pf: "my_bind_post_fetch w b = Inr (again, b', w')" "bound_slot (b', Some w')" by blast
  from Cons.prems have "list_all fetch_ready bs" by simp
  from Cons.IH [OF this, of "Suc k"] obtain refetch bs' where
    ih: "post_fetch_loop (Suc k) bs = Inr (refetch, bs')" "length bs' = length bs"
        "list_all bound_slot bs'" "\<forall>j\<in>set refetch. Suc k \<le> j \<and> j < Suc k + length bs"
    by blast
  from ih(4) have "\<forall>j\<in>set ((if again then [k] else []) @ refetch). k \<le> j \<and> j < k + length (sl # bs)"
    by auto
  then show ?case using sl e pf ih(1-3) by simp
qed

lemma bind_set_post_refetch_bound:
  "list_all bound_slot bs \<Longrightarrow> \<forall>e\<in>set items. e < length bs \<Longrightarrow>
   mysql_bind_set_post_refetch items bs = Inr bs"
proof (induction items)
  case Nil
  then show ?case by simp
next
  case (Cons e items)
  from Cons.prems have e: "e < length bs" by simp
  with Cons.prems(1) have "bound_slot (bs ! e)" by (simp add: list_all_length)
  then obtain w where w: "snd (bs ! e) = Some w" by (auto simp: bound_slot_iff)
  then have "bs[e := (fst (bs ! e), Some w)] = bs"
    by (metis list_update_id prod.collapse)
  then show ?case using Cons e w by (simp add: my_bind_post_refetch_def)
qed

lemma refetch_columns_result:
  "list_all bound_slot bs \<Longrightarrow> \<forall>i\<in>set refetch. i < length bs \<Longrightarrow>
   \<exists>ok h' bs'. refetch_columns eng h bs refetch = Inr (ok, h', bs')
     \<and> length bs' = length bs \<and> list_all bound_slot bs'
     \<and> (ok \<longleftrightarrow> (\<forall>k<length refetch.
                 return_code eng (h @ map mysql_stmt_fetch_column (take (Suc k) refetch)) = 0))
     \<and> (ok \<longrightarrow> h' = h @ map mysql_stmt_fetch_column refetch)
     \<and> (\<not> ok \<longrightarrow> (\<exists>k<length refetch.
                 h' = h @ map mysql_stmt_fetch_column (take (Suc k) refetch)
                 \<and> return_code eng h' \<noteq> 0
                 \<and> (\<forall>j<k. return_code eng
                        (h @ map mysql_stmt_fetch_column (take (Suc j) refetch)) = 0)))"
proof (induction refetch arbitrary: h bs)
  case Nil
  then show ?case by (intro exI [of _ True]) simp
next
  case (Cons i refetch)
  let ?h1 = "h @ [mysql_stmt_fetch_column i]"
  let ?bs1 = "bs[i := engine_store (delivered eng ?h1 i) (bs ! i)]"
  from Cons.prems have i: "i < length bs" by simp
  with Cons.prems(1) have "bound_slot (bs ! i)" by (simp add: list_all_length)
  then have "bound_slot (engine_store (delivered eng ?h1 i) (bs ! i))"
    by (rule engine_store_bound)
  with Cons.prems(1) i have b1: "list_all bound_slot ?bs1"
    by (auto simp: list_all_length nth_list_update)
  have l1: "\<forall>j\<in>set refetch. j < length ?bs1" using Cons.prems(2) by simp
  show ?case
  proof (cases "return_code eng ?h1 = 0")
    case False
    then have "refetch_columns eng h bs (i # refetch) = Inr (False, ?h1, ?bs1)"
      using i by (simp add: Let_def)
    moreover have "\<exists>k<length (i # refetch).
        ?h1 = h @ map mysql_stmt_fetch_column (take (Suc k) (i # refetch)) \<and> return_code eng ?h1 \<noteq> 0
        \<and> (\<forall>j<k. return_code eng
               (h @ map mysql_stmt_fetch_column (take (Suc j) (i # refetch))) = 0)"
      using False by (intro exI [of _ 0]) simp
    moreover have "\<not> (\<forall>k<length (i # refetch).
        return_code eng (h @ map mysql_stmt_fetch_column (take (Suc k) (i # refetch))) = 0)"
      using False by (auto intro!: exI [of _ 0])
    ultimately show ?thesis using b1 by (intro exI [of _ False] exI [of _ ?h1] exI [of _ ?bs1]) simp
  next
    case True
    from Cons.IH [OF b1 l1, of ?h1] obtain ok h' bs' where
      ih: "refetch_columns eng ?h1 ?bs1 refetch = Inr (ok, h', bs')"
          "length bs' = length ?bs1" "list_all bound_slot bs'"
          "ok \<longleftrightarrow> (\<forall>k<length refetch.
                 return_code eng (?h1 @ map mysql_stmt_fetch_column (take (Suc k) refetch)) = 0)"
          "ok \<longrightarrow> h' = ?h1 @ map mysql_stmt_fetch_column refetch"
          "\<not> ok \<longrightarrow> (\<exists>k<length refetch.
                 h' = ?h1 @ map mysql_stmt_fetch_column (take (Suc k) refetch)
                 \<and> return_code eng h' \<noteq> 0
                 \<and> (\<forall>j<k. return_code eng
                        (?h1 @ map mysql_stmt_fetch_column (take (Suc j) refetch)) = 0))"
      by blast
    have eq: "refetch_columns eng h bs (i # refetch) = Inr (ok, h', bs')"
      using True i ih(1) by (simp add: Let_def)
    have a: "ok \<longleftrightarrow> (\<forall>k<length (i # refetch).
        return_code eng (h @ map mysql_stmt_fetch_column (take (Suc k) (i # refetch))) = 0)"
      using ih(4) True by (simp add: All_less_Suc2)
    have b: "ok \<longrightarrow> h' = h @ map mysql_stmt_fetch_column (i # refetch)"
      using ih(5) by simp
    have c: "\<not> ok \<longrightarrow> (\<exists>k<length (i # refetch).
                 h' = h @ map mysql_stmt_fetch_column (take (Suc k) (i # refetch))
                 \<and> return_code eng h' \<noteq> 0
                 \<and> (\<forall>j<k. return_code eng
                        (h @ map mysql_stmt_fetch_column (take (Suc j) (i # refetch))) = 0))"
    proof
      assume "\<not> ok"
      with ih(6) obtain k where "k < length refetch"
        "h' = ?h1 @ map mysql_stmt_fetch_column (take (Suc k) refetch)" "return_code eng h' \<noteq> 0"
        "\<forall>j<k. return_code eng (?h1 @ map mysql_stmt_fetch_column (take (Suc j) refetch)) = 0"
        by blast
      then show "\<exists>k<length (i # refetch).
                 h' = h @ map mysql_stmt_fetch_column (take (Suc k) (i # refetch))
                 \<and> return_code eng h' \<noteq> 0
                 \<and> (\<forall>j<k. return_code eng
                        (h @ map mysql_stmt_fetch_column (take (Suc j) (i # refetch))) = 0)"
        using True by (intro exI [of _ "Suc k"]) (simp add: All_less_Suc2)
    qed
    from eq ih(2,3) a b c show ?thesis by (intro exI [of _ ok] exI [of _ h'] exI [of _ bs']) simp
  qed
qed

lemma post_fetch_error:
  "my_bind_post_fetch w b = Inl err \<Longrightarrow> err = null_pointer_dereference \<or> err = bad_optional_access"
  by (cases w) (auto simp: Let_def split: option.splits if_splits)

lemma fetch_bind_result_fails:
  "mysql_bind_set_pre_fetch (result_binds st) = Inr rb1 \<Longrightarrow>
   return_code eng (h @ [mysql_stmt_bind_result rb1]) \<noteq> 0 \<Longrightarrow>
   fetch eng h st = Inr (False, h @ [mysql_stmt_bind_result rb1], st \<lparr> result_binds := rb1 \<rparr>)"
  by (simp add: fetch_def)

lemma fetch_no_row:
  "mysql_bind_set_pre_fetch (result_binds st) = Inr rb1 \<Longrightarrow>
   return_code eng (h @ [mysql_stmt_bind_result rb1]) = 0 \<Longrightarrow>
   return_code eng (h @ [mysql_stmt_bind_result rb1, mysql_stmt_fetch]) \<noteq> 0 \<Longrightarrow>
   return_code eng (h @ [mysql_stmt_bind_result rb1, mysql_stmt_fetch]) \<noteq> MYSQL_DATA_TRUNCATED \<Longrightarrow>
   fetch eng h st = Inr (False, h @ [mysql_stmt_bind_result rb1, mysql_stmt_fetch],
     st \<lparr> result_binds := engine_store_row
            (delivered eng (h @ [mysql_stmt_bind_result rb1, mysql_stmt_fetch])) 0 rb1 \<rparr>)"
  by (simp add: fetch_def Let_def)

lemma fetch_row:
  assumes "mysql_bind_set_pre_fetch (result_binds st) = Inr rb1"
    and "return_code eng (h @ [mysql_stmt_bind_result rb1]) = 0"
    and "return_code eng (h @ [mysql_stmt_bind_result rb1, mysql_stmt_fetch]) = 0
       \<or> return_code eng (h @ [mysql_stmt_bind_result rb1, mysql_stmt_fetch]) = MYSQL_DATA_TRUNCATED"
    and "mysql_bind_set_post_fetch (engine_store_row
            (delivered eng (h @ [mysql_stmt_bind_result rb1, mysql_stmt_fetch])) 0 rb1) = Inr (refetch, rb3)"
    and "refetch_columns eng (h @ [mysql_stmt_bind_result rb1, mysql_stmt_fetch]) rb3 refetch
           = Inr (ok, h3, rb4)"
    and "mysql_bind_set_post_refetch refetch rb4 = Inr rb5"
  shows "fetch eng h st = Inr (ok, h3, st \<lparr> result_binds := (if ok then rb5 else rb4) \<rparr>)"
proof -
  have "fetch eng h st =
     (case refetch_columns eng (h @ [mysql_stmt_bind_result rb1, mysql_stmt_fetch]) rb3 refetch of
        Inl err \<Rightarrow> Inl err
      | Inr (False, h3, rb4) \<Rightarrow> Inr (False, h3, st \<lparr> result_binds := rb4 \<rparr>)
      | Inr (True, h3, rb4) \<Rightarrow>
          (case mysql_bind_set_post_refetch refetch rb4 of
             Inl err \<Rightarrow> Inl err
           | Inr rb5 \<Rightarrow> Inr (True, h3, st \<lparr> result_binds := rb5 \<rparr>)))"
    using assms(3)
    by (rule disjE) (simp_all add: fetch_def Let_def assms(1,2,4))
  then show ?thesis
    by (cases ok) (simp_all add: assms(5,6))
qed

lemma fetch_prepare:
  assumes "list_all bound_slot (result_binds st)"
  shows "\<exists>rb1. mysql_bind_set_pre_fetch (result_binds st) = Inr rb1 \<and>
           (\<forall>row. \<exists>refetch rb3.
              mysql_bind_set_post_fetch (engine_store_row row 0 rb1) = Inr (refetch, rb3)
              \<and> list_all bound_slot rb3 \<and> (\<forall>i\<in>set refetch. i < length rb3))"
proof -
  from bind_set_pre_fetch_ready [OF assms] obtain rb1 where
    rb1: "mysql_bind_set_pre_fetch (result_binds st) = Inr rb1" "list_all fetch_ready rb1" by blast
  have "\<exists>refetch rb3.
          mysql_bind_set_post_fetch (engine_store_row row 0 rb1) = Inr (refetch, rb3)
          \<and> list_all bound_slot rb3 \<and> (\<forall>i\<in>set refetch. i < length rb3)" for row
  proof -
    have "list_all fetch_ready (engine_store_row row 0 rb1)"
      using rb1(2) by (rule engine_store_row_ready)
    from post_fetch_loop_ready [OF this, of 0] show ?thesis
      unfolding mysql_bind_set_post_fetch_def by fastforce
  qed
  with rb1(1) show ?thesis by blast
qed

lemma refetch_columns_ok:
  assumes "list_all bound_slot bs" and "\<forall>i\<in>set refetch. i < length bs"
    and ok: "\<forall>k<length refetch.
               return_code eng (h @ map mysql_stmt_fetch_column (take (Suc k) refetch)) = 0"
  shows "\<exists>bs'. refetch_columns eng h bs refetch = Inr (True, h @ map mysql_stmt_fetch_column refetch, bs')
           \<and> length bs' = length bs \<and> list_all bound_slot bs'"
proof -
  from refetch_columns_result [OF assms(1,2), of eng h] obtain b h' bs' where
    rf: "refetch_columns eng h bs refetch = Inr (b, h', bs')"
        "length bs' = length bs" "list_all bound_slot bs'"
        "b \<longleftrightarrow> (\<forall>k<length refetch.
                 return_code eng (h @ map mysql_stmt_fetch_column (take (Suc k) refetch)) = 0)"
        "b \<longrightarrow> h' = h @ map mysql_stmt_fetch_column refetch"
    by blast
  from rf(4) ok have b by simp
  with rf(5) have "h' = h @ map mysql_stmt_fetch_column refetch" by simp
  with rf(1,2,3) \<open>b\<close> show ?thesis by simp
qed

lemma refetch_columns_fails:
  assumes "list_all bound_slot bs" and "\<forall>i\<in>set refetch. i < length bs"
    and nok: "\<not> (\<forall>k<length refetch.
               return_code eng (h @ map mysql_stmt_fetch_column (take (Suc k) refetch)) = 0)"
  shows "\<exists>k<length refetch. \<exists>bs'.
           refetch_columns eng h bs refetch =
             Inr (False, h @ map mysql_stmt_fetch_column (take (Suc k) refetch), bs')
           \<and> length bs' = length bs \<and> list_all bound_slot bs'
           \<and> return_code eng (h @ map mysql_stmt_fetch_column (take (Suc k) refetch)) \<noteq> 0
           \<and> (\<forall>j<k. return_code eng (h @ map mysql_stmt_fetch_column (take (Suc j) refetch)) = 0)"
proof -
  from refetch_columns_result [OF assms(1,2), of eng h] obtain b h' bs' where
    rf: "refetch_columns eng h bs refetch = Inr (b, h', bs')"
        "length bs' = length bs" "list_all bound_slot bs'"
        "b \<longleftrightarrow> (\<forall>k<length refetch.
                 return_code eng (h @ map mysql_stmt_fetch_column (take (Suc k) refetch)) = 0)"
        "\<not> b \<longrightarrow> (\<exists>k<length refetch.
                 h' = h @ map mysql_stmt_fetch_column (take (Suc k) refetch)
                 \<and> return_code eng h' \<noteq> 0
                 \<and> (\<forall>j<k. return_code eng
                        (h @ map mysql_stmt_fetch_column (take (Suc j) refetch)) = 0))"
    by blast
  from rf(4) nok have nb: "\<not> b" by simp
  with rf(5) obtain k where k: "k < length refetch"
      "h' = h @ map mysql_stmt_fetch_column (take (Suc k) refetch)"
      "return_code eng h' \<noteq> 0"
      "\<forall>j<k. return_code eng (h @ map mysql_stmt_fetch_column (take (Suc j) refetch)) = 0"
    by blast
  have "refetch_columns eng h bs refetch =
             Inr (False, h @ map mysql_stmt_fetch_column (take (Suc k) refetch), bs')"
    using rf(1) nb k(2) by simp
  moreover have "return_code eng (h @ map mysql_stmt_fetch_column (take (Suc k) refetch)) \<noteq> 0"
    using k(2,3) by simp
  ultimately show ?thesis using k(1,4) rf(2,3) by blast
qed

lemma fetch_refetch_ok:
  assumes pre: "mysql_bind_set_pre_fetch (result_binds st) = Inr rb1"
    and h2: "h2 = h @ [mysql_stmt_bind_result rb1, mysql_stmt_fetch]"
    and rc1: "return_code eng (h @ [mysql_stmt_bind_result rb1]) = 0"
    and rc2: "return_code eng h2 = 0 \<or> return_code eng h2 = MYSQL_DATA_TRUNCATED"
    and pf: "mysql_bind_set_post_fetch (engine_store_row (delivered eng h2) 0 rb1) = Inr (refetch, rb3)"
    and bound: "list_all bound_slot rb3" and rng: "\<forall>i\<in>set refetch. i < length rb3"
    and ok: "\<forall>k<length refetch.
               return_code eng (h2 @ map mysql_stmt_fetch_column (take (Suc k) refetch)) = 0"
  shows "\<exists>rb4. refetch_columns eng h2 rb3 refetch =
                  Inr (True, h2 @ map mysql_stmt_fetch_column refetch, rb4)
               \<and> mysql_bind_set_post_refetch refetch rb4 = Inr rb4
               \<and> fetch eng h st = Inr (True, h2 @ map mysql_stmt_fetch_column refetch,
                                       st \<lparr> result_binds := rb4 \<rparr>)"
proof -
  from refetch_columns_ok [OF bound rng ok] obtain rb4 where
    rf0: "refetch_columns eng h2 rb3 refetch =
           Inr (True, h2 @ map mysql_stmt_fetch_column refetch, rb4)"
        "length rb4 = length rb3" "list_all bound_slot rb4"
    by blast
  define h3 where "h3 = h2 @ map mysql_stmt_fetch_column refetch"
  from rf0 h3_def have
    rf: "refetch_columns eng h2 rb3 refetch = Inr (True, h3, rb4)"
        "length rb4 = length rb3" "list_all bound_slot rb4"
        "h3 = h2 @ map mysql_stmt_fetch_column refetch"
    by simp_all
  from rng rf(2) have "\<forall>e\<in>set refetch. e < length rb4" by simp
  from bind_set_post_refetch_bound [OF rf(3) this]
  have pr: "mysql_bind_set_post_refetch refetch rb4 = Inr rb4" .
  have "fetch eng h st = Inr (True, h3, st \<lparr> result_binds := (if True then rb4 else rb4) \<rparr>)"
    by (rule fetch_row [OF pre rc1 rc2 [unfolded h2] pf [unfolded h2] rf(1) [unfolded h2] pr])
  with rf(1,4) pr show ?thesis by simp
qed

lemma fetch_refetch_fails:
  assumes pre: "mysql_bind_set_pre_fetch (result_binds st) = Inr rb1"
    and h2: "h2 = h @ [mysql_stmt_bind_result rb1, mysql_stmt_fetch]"
    and rc1: "return_code eng (h @ [mysql_stmt_bind_result rb1]) = 0"
    and rc2: "return_code eng h2 = 0 \<or> return_code eng h2 = MYSQL_DATA_TRUNCATED"
    and pf: "mysql_bind_set_post_fetch (engine_store_row (delivered eng h2) 0 rb1) = Inr (refetch, rb3)"
    and bound: "list_all bound_slot rb3" and rng: "\<forall>i\<in>set refetch. i < length rb3"
    and nok: "\<not> (\<forall>k<length refetch.
               return_code eng (h2 @ map mysql_stmt_fetch_column (take (Suc k) refetch)) = 0)"
  shows "\<exists>k<length refetch. \<exists>rb4.
           fetch eng h st = Inr (False, h2 @ map mysql_stmt_fetch_column (take (Suc k) refetch),
                                 st \<lparr> result_binds := rb4 \<rparr>)
           \<and> return_code eng (h2 @ map mysql_stmt_fetch_column (take (Suc k) refetch)) \<noteq> 0
           \<and> (\<forall>j<k. return_code eng (h2 @ map mysql_stmt_fetch_column (take (Suc j) refetch)) = 0)"
proof -
  from refetch_columns_fails [OF bound rng nok] obtain k rb4 where
    rf0: "refetch_columns eng h2 rb3 refetch =
           Inr (False, h2 @ map mysql_stmt_fetch_column (take (Suc k) refetch), rb4)"
        "length rb4 = length rb3" "list_all bound_slot rb4"
    and k0: "k < length refetch"
        "return_code eng (h2 @ map mysql_stmt_fetch_column (take (Suc k) refetch)) \<noteq> 0"
        "\<forall>j<k. return_code eng (h2 @ map mysql_stmt_fetch_column (take (Suc j) refetch)) = 0"
    by blast
  define h3 where "h3 = h2 @ map mysql_stmt_fetch_column (take (Suc k) refetch)"
  from rf0 h3_def have
    rf: "refetch_columns eng h2 rb3 refetch = Inr (False, h3, rb4)"
        "length rb4 = length rb3" "list_all bound_slot rb4"
    by simp_all
  from k0 h3_def have
    k: "k < length refetch" "h3 = h2 @ map mysql_stmt_fetch_column (take (Suc k) refetch)"
        "return_code eng h3 \<noteq> 0"
        "\<forall>j<k. return_code eng (h2 @ map mysql_stmt_fetch_column (take (Suc j) refetch)) = 0"
    by simp_all
  from rng rf(2) have "\<forall>e\<in>set refetch. e < length rb4" by simp
  from bind_set_post_refetch_bound [OF rf(3) this]
  have pr: "mysql_bind_set_post_refetch refetch rb4 = Inr rb4" .
  have "fetch eng h st = Inr (False, h3, st \<lparr> result_binds := (if False then rb4 else rb4) \<rparr>)"
    by (rule fetch_row [OF pre rc1 rc2 [unfolded h2] pf [unfolded h2] rf(1) [unfolded h2] pr])
  then have "fetch eng h st = Inr (False, h2 @ map mysql_stmt_fetch_column (take (Suc k) refetch),
                                 st \<lparr> result_binds := rb4 \<rparr>)"
    using k(2) by simp
  with k show ?thesis by blast
qed

lemma string_post_fetch:
  "my_bind_post_fetch (my_bind_string (Some s)) b =
     Inr (0 < length_value b,
          (if 0 < length_value b
           then b \<lparr> buffer := buffer_string_bytes, buffer_length := length_value b \<rparr> else b),
          my_bind_string (Some (if 0 < length_value b then resize (length_value b) s else [])))"
  by (simp add: Let_def length_resize)

lemma optional_string_post_fetch:
  "\<not> is_null_value b \<Longrightarrow>
   my_bind_post_fetch (my_bind_optional_string (Some s)) b =
     Inr (0 < length_value b,
          (if 0 < length_value b
           then b \<lparr> buffer := buffer_string_bytes, buffer_length := length_value b \<rparr> else b),
          my_bind_optional_string (Some (if 0 < length_value b then resize (length_value b) s else [])))"
  by (simp add: Let_def length_resize)

lemma optional_string_engaged_after_fetch:
  "my_bind_pre_fetch (my_bind_optional_string os) b0 = Inr (b, w) \<Longrightarrow>
   \<exists>s. snd (engine_store co (b, Some w)) = Some (my_bind_optional_string (Some s))"
  by (cases co) (auto simp: engine_store_def Let_def)

lemma execute_result:
  assumes pre: "mysql_bind_set_pre_execute (param_binds st) = Inr pb"
    and bound: "list_all bound_slot pb"
  shows "(return_code eng (h @ [mysql_stmt_bind_param pb]) \<noteq> 0 \<longrightarrow>
            execute eng h st = Inr (False, h @ [mysql_stmt_bind_param pb], st \<lparr> param_binds := pb \<rparr>))"
    and "(return_code eng (h @ [mysql_stmt_bind_param pb]) = 0
          \<and> return_code eng (h @ [mysql_stmt_bind_param pb, mysql_stmt_execute]) \<noteq> 0 \<longrightarrow>
            execute eng h st = Inr (False, h @ [mysql_stmt_bind_param pb, mysql_stmt_execute],
                                    st \<lparr> param_binds := pb \<rparr>))"
    and "(return_code eng (h @ [mysql_stmt_bind_param pb]) = 0
          \<and> return_code eng (h @ [mysql_stmt_bind_param pb, mysql_stmt_execute]) = 0 \<longrightarrow>
            execute eng h st = Inr (True, h @ [mysql_stmt_bind_param pb, mysql_stmt_execute],
                                    st \<lparr> param_binds := pb \<rparr>))"
  using pre bind_set_post_execute_bound [OF bound]
  by (simp_all add: execute_def Let_def)

lemma execute_returns:
  assumes "list_all bound_slot (param_binds st)"
  shows "\<exists>r h' st'. execute eng h st = Inr (r, h', st') \<and> list_all bound_slot (param_binds st')
           \<and> length (param_binds st') = length (param_binds st)
           \<and> result_binds st' = result_binds st"
proof -
  from bind_set_pre_execute_bound [OF assms] obtain pb where
    pb: "mysql_bind_set_pre_execute (param_binds st) = Inr pb" "length pb = length (param_binds st)"
        "list_all bound_slot pb" by blast
  from execute_result [OF pb(1,3), of eng h]
  have "execute eng h st = Inr (False, h @ [mysql_stmt_bind_param pb], st \<lparr> param_binds := pb \<rparr>)
      \<or> execute eng h st = Inr (False, h @ [mysql_stmt_bind_param pb, mysql_stmt_execute],
                                    st \<lparr> param_binds := pb \<rparr>)
      \<or> execute eng h st = Inr (True, h @ [mysql_stmt_bind_param pb, mysql_stmt_execute],
                                    st \<lparr> param_binds := pb \<rparr>)"
    by blast
  then show ?thesis using pb(2,3) by auto
qed

lemma ctor_result:
  "\<not> stmt_allocated eng (h @ [mysql_stmt_init]) \<Longrightarrow> prepared_stmt_ctor eng h query = Inl bad_alloc"
  "stmt_allocated eng (h @ [mysql_stmt_init]) \<Longrightarrow>
   return_code eng (h @ [mysql_stmt_init, mysql_stmt_prepare query]) \<noteq> 0 \<Longrightarrow>
   prepared_stmt_ctor eng h query =
     Inl (runtime_error (''Failed to prepare stmt: ''
            @ mysql_stmt_error eng (h @ [mysql_stmt_init, mysql_stmt_prepare query])))"
  "stmt_allocated eng (h @ [mysql_stmt_init]) \<Longrightarrow>
   return_code eng (h @ [mysql_stmt_init, mysql_stmt_prepare query]) = 0 \<Longrightarrow>
   prepared_stmt_ctor eng h query =
     Inr (h @ [mysql_stmt_init, mysql_stmt_prepare query],
          \<lparr> param_binds = mysql_bind_set
               (mysql_stmt_param_count eng (h @ [mysql_stmt_init, mysql_stmt_prepare query])),
            result_binds = mysql_bind_set
               (case mysql_stmt_result_metadata eng (h @ [mysql_stmt_init, mysql_stmt_prepare query]) of
                  None \<Rightarrow> 0 | Some result_count \<Rightarrow> result_count) \<rparr>)"
  by (simp_all add: prepared_stmt_ctor_def Let_def split: option.split)

lemma post_fetch_loop_null_error:
  "i < length bs \<Longrightarrow> snd (bs ! i) = None \<Longrightarrow>
   post_fetch_loop k bs = Inl null_pointer_dereference
   \<or> post_fetch_loop k bs = Inl bad_optional_access"
proof (induction bs arbitrary: i k)
  case Nil
  then show ?case by simp
next
  case (Cons sl bs)
  obtain b e where sl: "sl = (b, e)" by (cases sl)
  show ?case
  proof (cases i)
    case 0
    with Cons.prems sl show ?thesis by simp
  next
    case (Suc j)
    with Cons have "post_fetch_loop (Suc k) bs = Inl null_pointer_dereference
      \<or> post_fetch_loop (Suc k) bs = Inl bad_optional_access" by simp
    then show ?thesis using sl
      by (auto split: option.split sum.split dest: post_fetch_error)
  qed
qed

lemma make_unique_my_bind_data: "make_unique_my_bind arg \<noteq> my_bind_string None"
  by (cases arg) simp_all

text \<open>
  Binding one variable per slot of a fresh bind set, as \<open>bind_param\<close> and
  \<open>bind_result\<close> do, leaves every slot bound.
\<close>

lemma bind_variables_impl_bound:
  "idx + length args = length bs \<Longrightarrow> \<forall>j<idx. bound_slot (bs ! j) \<Longrightarrow>
   \<exists>bs'. bind_variables_impl idx args bs = (None, bs') \<and> length bs' = length bs
         \<and> list_all bound_slot bs'"
proof (induction args arbitrary: idx bs)
  case Nil
  then show ?case by (simp add: list_all_length)
next
  case (Cons arg args)
  let ?bs1 = "bs[idx := (fst (bs ! idx), Some (make_unique_my_bind arg))]"
  from Cons.prems(1) have idx: "idx < length bs" by simp
  then have sv: "set_variable idx arg bs = (None, ?bs1)"
    by (simp add: set_variable_def size_bind_set_def)
  have "bound_slot (?bs1 ! j)" if "j < Suc idx" for j
  proof (cases "j = idx")
    case True
    with idx show ?thesis by (simp add: bound_slot_iff make_unique_my_bind_data)
  next
    case False
    with that Cons.prems(2) show ?thesis by simp
  qed
  then have "\<forall>j<idx + 1. bound_slot (?bs1 ! j)" by simp
  moreover from Cons.prems(1) have "(idx + 1) + length args = length ?bs1" by simp
  ultimately obtain bs' where
    "bind_variables_impl (idx + 1) args ?bs1 = (None, bs')" "length bs' = length ?bs1"
    "list_all bound_slot bs'"
    using Cons.IH [of "idx + 1" ?bs1] by blast
  then show ?case using sv by simp
qed

lemma bind_variables_bound:
  "length args = n \<Longrightarrow>
   \<exists>bs'. bind_variables args (mysql_bind_set n) = (None, bs') \<and> length bs' = n
         \<and> list_all bound_slot bs'"
  using bind_variables_impl_bound [of 0 args "mysql_bind_set n"]
  by (simp add: bind_variables_def mysql_bind_set_def)

text \<open>
  The example statement is what the constructor, \<open>bind_param\<close> and \<open>bind_result\<close>
  produce.
\<close>

lemma example_stmt_built:
  "prepared_stmt_ctor (example_engine all_succeed) [] ''SELECT a, b FROM t WHERE id = ?'' =
     Inr ([mysql_stmt_init, mysql_stmt_prepare ''SELECT a, b FROM t WHERE id = ?''],
          \<lparr> param_binds = mysql_bind_set 1, result_binds = mysql_bind_set 2 \<rparr>)"
  "bind_result [number_variable T_int32 0, string_variable []]
     (snd (bind_param [optional_number_variable T_int32 (Some 7)]
        \<lparr> param_binds = mysql_bind_set 1, result_binds = mysql_bind_set 2 \<rparr>)) =
     (None, example_stmt)"
  by (simp_all add: prepared_stmt_ctor_def example_engine_def Let_def bind_param_def
        bind_result_def bind_variables_def set_variable_def size_bind_set_def mysql_bind_set_def
        example_stmt_def numeral_2_eq_2)

text \<open>
  Operations that keep their engine calls between \<open>Lock\<close> and \<open>Unlock\<close> exclude each
  other under every schedule the mutex admits. \<open>execute\<close>, \<open>fetch\<close>, the destructor
  and the constructor that succeeds or cannot allocate are such operations; the
  constructor whose preparation fails is not.
\<close>

lemma guarded_from_calls:
  "guarded_from True (map Call calls @ es) = guarded_from True es"
  by (induction calls) simp_all

lemma guarded_with_lock: "guarded (with_lock calls)"
  by (simp add: guarded_def with_lock_def guarded_from_calls)

lemma execute_events_guarded: "execute_events eng h st = Inr es \<Longrightarrow> guarded es"
  by (auto simp: execute_events_def guarded_with_lock split: sum.splits)

lemma fetch_events_guarded: "fetch_events eng h st = Inr es \<Longrightarrow> guarded es"
  by (auto simp: fetch_events_def guarded_with_lock split: sum.splits)

lemma destructor_events_guarded: "guarded destructor_events"
  by (simp add: destructor_events_def guarded_with_lock)

lemma ctor_events_guarded_iff:
  "guarded (prepared_stmt_ctor_events eng h query) \<longleftrightarrow>
     \<not> (stmt_allocated eng (h @ [mysql_stmt_init])
        \<and> return_code eng (h @ [mysql_stmt_init, mysql_stmt_prepare query]) \<noteq> 0)"
  by (simp add: prepared_stmt_ctor_events_def Let_def guarded_with_lock)
     (simp add: guarded_def with_lock_def)

lemma execute_events_calls:
  assumes "list_all bound_slot (param_binds st)"
  shows "\<exists>pb. mysql_bind_set_pre_execute (param_binds st) = Inr pb \<and>
     execute_events eng h st =
       Inr (if return_code eng (h @ [mysql_stmt_bind_param pb]) \<noteq> 0
            then [Lock, Call (mysql_stmt_bind_param pb), Unlock]
            else [Lock, Call (mysql_stmt_bind_param pb), Call mysql_stmt_execute, Unlock])"
proof -
  from bind_set_pre_execute_bound [OF assms] obtain pb where
    pb: "mysql_bind_set_pre_execute (param_binds st) = Inr pb" "list_all bound_slot pb" by blast
  from execute_result [OF pb, of eng h] pb(1) show ?thesis
    by (cases "return_code eng (h @ [mysql_stmt_bind_param pb]) = 0";
        cases "return_code eng (h @ [mysql_stmt_bind_param pb, mysql_stmt_execute]) = 0")
       (auto simp: execute_events_def with_lock_def)
qed

lemma thread_trace_Cons:
  "thread_trace t ((t', e) # s) = (if t' = t then e # thread_trace t s else thread_trace t s)"
  by (simp add: thread_trace_def)

lemma exclusive_if_guarded_from:
  "guarded_from (owner = Some True) (thread_trace True s) \<Longrightarrow>
   guarded_from (owner = Some False) (thread_trace False s) \<Longrightarrow>
   admissible owner s \<Longrightarrow> exclusive owner s"
proof (induction s arbitrary: owner)
  case Nil
  then show ?case by simp
next
  case (Cons x s)
  obtain t e where x: "x = (t, e)" by (cases x)
  show ?case
  proof (cases e)
    case Lock
    with Cons.prems x have o: "owner = None" and a: "admissible (Some t) s" by simp_all
    from Cons.prems(1,2) x Lock o
    have "guarded_from (Some t = Some True) (thread_trace True s)"
         "guarded_from (Some t = Some False) (thread_trace False s)"
      by (cases t; simp add: thread_trace_Cons)+
    from Cons.IH [OF this a] show ?thesis using x Lock by simp
  next
    case Unlock
    with Cons.prems x have o: "owner = Some t" and a: "admissible None s" by simp_all
    from Cons.prems(1,2) x Unlock o
    have "guarded_from (None = Some True) (thread_trace True s)"
         "guarded_from (None = Some False) (thread_trace False s)"
      by (cases t; simp add: thread_trace_Cons)+
    from Cons.IH [OF this a] show ?thesis using x Unlock by simp
  next
    case (Call c)
    with Cons.prems x have a: "admissible owner s" by simp
    from Cons.prems(1,2) x Call
    have o: "owner = Some t"
      and g: "guarded_from (owner = Some True) (thread_trace True s)"
         "guarded_from (owner = Some False) (thread_trace False s)"
      by (cases t; simp add: thread_trace_Cons)+
    from Cons.IH [OF g a] o show ?thesis using x Call by simp
  qed
qed

lemma mutual_exclusion_of_guarded:
  "guarded (thread_trace True s) \<Longrightarrow> guarded (thread_trace False s) \<Longrightarrow>
   admissible None s \<Longrightarrow> exclusive None s"
  using exclusive_if_guarded_from [of None s] by (simp add: guarded_def)

lemma execute_fetch_exclusive:
  "execute_events eng h st = Inr (thread_trace True s) \<Longrightarrow>
   fetch_events eng' h' st' = Inr (thread_trace False s) \<Longrightarrow>
   admissible None s \<Longrightarrow> exclusive None s"
  by (intro mutual_exclusion_of_guarded execute_events_guarded fetch_events_guarded)

section \<open>The claims\<close>

text \<open>
  Claim C1: for an optional numeric parameter, \<open>pre_execute\<close> copies a held value
  into the staging scalar and clears the null flag; for an empty optional it sets the
  null flag. The code copies the value, but assigns \<open>data->has_value()\<close> to
  \<open>is_null_value\<close>: an optional holding 42 leaves the flag set, an empty one leaves it
  clear. The string variant of the same hook and \<open>post_fetch\<close> of this class both read
  the flag the other way round.
\<close>

theorem C1_null_flag_inverted:
  "my_bind_pre_execute (my_optional_number_bind T_int32 (Some (42::int)) 0) memset_zero =
     (memset_zero \<lparr> buffer := buffer_pdata, buffer_type := MYSQL_TYPE_LONG, is_null_value := True \<rparr>,
      my_optional_number_bind T_int32 (Some 42) 42)
   \<and> my_bind_pre_execute (my_optional_number_bind T_int32 None (7::int)) memset_zero =
     (memset_zero \<lparr> buffer := buffer_pdata, buffer_type := MYSQL_TYPE_LONG, is_null_value := False \<rparr>,
      my_optional_number_bind T_int32 None 7)"
  by (simp add: memset_zero_def)

text \<open>
  Claim C2, as amended: \<open>post_fetch\<close> of a string slot (and of an optional string slot
  whose null flag is clear) signals a refetch exactly when the reported length
  \<open>length_value\<close> is greater than zero; it then resizes the string to exactly that
  length and repoints the descriptor with that buffer length. When the length is zero it
  clears the string, leaves the descriptor alone and signals no refetch.
\<close>

theorem C2_refetch_iff_length_positive:
  "my_bind_post_fetch (my_bind_string (Some s)) b =
     Inr (0 < length_value b,
          (if 0 < length_value b
           then b \<lparr> buffer := buffer_string_bytes, buffer_length := length_value b \<rparr> else b),
          my_bind_string (Some (if 0 < length_value b then resize (length_value b) s else [])))
   \<and> (\<not> is_null_value b \<longrightarrow>
      my_bind_post_fetch (my_bind_optional_string (Some s)) b =
       Inr (0 < length_value b,
          (if 0 < length_value b
           then b \<lparr> buffer := buffer_string_bytes, buffer_length := length_value b \<rparr> else b),
          my_bind_optional_string (Some (if 0 < length_value b then resize (length_value b) s else []))))
   \<and> length (resize (length_value b) s) = length_value b"
  using string_post_fetch optional_string_post_fetch length_resize by blast

text \<open>
  At a reported length of three bytes the optional string is resized to three bytes and
  refetched; at length zero the string becomes empty and is not refetched.
\<close>

theorem C2_refetch_iff_length_positive_witness:
  "\<not> is_null_value (provisional_bind \<lparr> length_value := 3 \<rparr>)
   \<and> my_bind_post_fetch (my_bind_optional_string (Some ''a'')) (provisional_bind \<lparr> length_value := 3 \<rparr>) =
       Inr (True, provisional_bind \<lparr> length_value := 3, buffer_length := 3 \<rparr>,
            my_bind_optional_string (Some [CHR ''a'', CHR 0x00, CHR 0x00]) :: int my_bind)
   \<and> my_bind_post_fetch (my_bind_string (Some ''a'')) (provisional_bind \<lparr> length_value := 0 \<rparr>) =
       Inr (False, provisional_bind \<lparr> length_value := 0 \<rparr>, my_bind_string (Some []) :: int my_bind)"
  using C2_refetch_iff_length_positive [of "''a''" "provisional_bind \<lparr> length_value := 3 \<rparr>"]
        C2_refetch_iff_length_positive [of "''a''" "provisional_bind \<lparr> length_value := 0 \<rparr>"]
  by (simp add: provisional_bind_def memset_zero_def resize_def numeral_2_eq_2)

text \<open>
  Claim C2 as stated fails: the engine delivers a one-byte value into the one-byte
  provisional buffer, so the reported length does not exceed the buffer, and
  \<open>post_fetch\<close> still signals a refetch.
\<close>

theorem C2_refetch_although_value_fits:
  "engine_store (Some \<lparr> col_is_null = False, col_length = 1, col_number = (0::int), col_bytes = ''a'' \<rparr>)
      (provisional_bind, Some (my_bind_string (Some ''z''))) =
     (provisional_bind \<lparr> length_value := 1 \<rparr>, Some (my_bind_string (Some ''a'')))
   \<and> \<not> (length_value (provisional_bind \<lparr> length_value := 1 \<rparr>)
          > buffer_length (provisional_bind \<lparr> length_value := 1 \<rparr>))
   \<and> my_bind_post_fetch (my_bind_string (Some ''a'')) (provisional_bind \<lparr> length_value := 1 \<rparr>) =
       Inr (True, provisional_bind \<lparr> length_value := 1 \<rparr>, my_bind_string (Some ''a'') :: int my_bind)"
  by (simp add: provisional_bind_def memset_zero_def resize_def engine_store_def overwrite_def)

text \<open>
  Claim C3: the outcomes of \<open>fetch\<close> on a statement whose result slots are all bound.
  \<open>pre_fetch\<close> and, after the engine wrote the row, \<open>post_fetch\<close> succeed; then
  \<^item> if binding the results fails, or the row fetch returns anything other than 0 or
    \<open>MYSQL_DATA_TRUNCATED\<close> (no more rows, or an error), \<open>fetch\<close> returns false;
  \<^item> otherwise, if every \<open>mysql_stmt_fetch_column\<close> call for the indices
    \<open>post_fetch\<close> returned succeeds, exactly one such call was issued per index, in
    order, \<open>post_refetch\<close> ran on those indices and \<open>fetch\<close> returns true;
  \<^item> otherwise \<open>fetch\<close> returns false at the first call that fails.
\<close>

theorem C3_fetch_outcomes:
  assumes "list_all bound_slot (result_binds st)"
  shows "\<exists>rb1 refetch rb3.
     mysql_bind_set_pre_fetch (result_binds st) = Inr rb1 \<and>
     (let h1 = h @ [mysql_stmt_bind_result rb1];
          h2 = h @ [mysql_stmt_bind_result rb1, mysql_stmt_fetch];
          rc = return_code eng h2;
          rb2 = engine_store_row (delivered eng h2) 0 rb1;
          all_refetched = (\<forall>k<length refetch.
             return_code eng (h2 @ map mysql_stmt_fetch_column (take (Suc k) refetch)) = 0)
      in mysql_bind_set_post_fetch rb2 = Inr (refetch, rb3)
       \<and> (return_code eng h1 \<noteq> 0 \<longrightarrow>
            fetch eng h st = Inr (False, h1, st \<lparr> result_binds := rb1 \<rparr>))
       \<and> (return_code eng h1 = 0 \<and> rc \<noteq> 0 \<and> rc \<noteq> MYSQL_DATA_TRUNCATED \<longrightarrow>
            fetch eng h st = Inr (False, h2, st \<lparr> result_binds := rb2 \<rparr>))
       \<and> (return_code eng h1 = 0 \<and> (rc = 0 \<or> rc = MYSQL_DATA_TRUNCATED) \<and> all_refetched \<longrightarrow>
            (\<exists>rb4. refetch_columns eng h2 rb3 refetch =
                      Inr (True, h2 @ map mysql_stmt_fetch_column refetch, rb4)
                  \<and> mysql_bind_set_post_refetch refetch rb4 = Inr rb4
                  \<and> fetch eng h st = Inr (True, h2 @ map mysql_stmt_fetch_column refetch,
                                          st \<lparr> result_binds := rb4 \<rparr>)))
       \<and> (return_code eng h1 = 0 \<and> (rc = 0 \<or> rc = MYSQL_DATA_TRUNCATED) \<and> \<not> all_refetched \<longrightarrow>
            (\<exists>k<length refetch. \<exists>rb4.
               fetch eng h st = Inr (False, h2 @ map mysql_stmt_fetch_column (take (Suc k) refetch),
                                     st \<lparr> result_binds := rb4 \<rparr>)
               \<and> return_code eng (h2 @ map mysql_stmt_fetch_column (take (Suc k) refetch)) \<noteq> 0
               \<and> (\<forall>j<k. return_code eng
                      (h2 @ map mysql_stmt_fetch_column (take (Suc j) refetch)) = 0))))"
proof -
  from fetch_prepare [OF assms] obtain rb1 where
    pre: "mysql_bind_set_pre_fetch (result_binds st) = Inr rb1"
    and post: "\<And>row. \<exists>refetch rb3.
              mysql_bind_set_post_fetch (engine_store_row row 0 rb1) = Inr (refetch, rb3)
              \<and> list_all bound_slot rb3 \<and> (\<forall>i\<in>set refetch. i < length rb3)"
    by blast
  define h2 where "h2 = h @ [mysql_stmt_bind_result rb1, mysql_stmt_fetch]"
  from post [of "delivered eng h2"] obtain refetch rb3 where
    pf: "mysql_bind_set_post_fetch (engine_store_row (delivered eng h2) 0 rb1) = Inr (refetch, rb3)"
    and bound: "list_all bound_slot rb3" and rng: "\<forall>i\<in>set refetch. i < length rb3"
    by blast
  have a: "return_code eng (h @ [mysql_stmt_bind_result rb1]) \<noteq> 0 \<longrightarrow>
      fetch eng h st = Inr (False, h @ [mysql_stmt_bind_result rb1], st \<lparr> result_binds := rb1 \<rparr>)"
    using fetch_bind_result_fails [OF pre] by blast
  have b: "return_code eng (h @ [mysql_stmt_bind_result rb1]) = 0 \<and> return_code eng h2 \<noteq> 0
        \<and> return_code eng h2 \<noteq> MYSQL_DATA_TRUNCATED \<longrightarrow>
      fetch eng h st = Inr (False, h2,
        st \<lparr> result_binds := engine_store_row (delivered eng h2) 0 rb1 \<rparr>)"
    unfolding h2_def using fetch_no_row [OF pre] by blast
  have c: "return_code eng (h @ [mysql_stmt_bind_result rb1]) = 0
        \<and> (return_code eng h2 = 0 \<or> return_code eng h2 = MYSQL_DATA_TRUNCATED)
        \<and> (\<forall>k<length refetch.
             return_code eng (h2 @ map mysql_stmt_fetch_column (take (Suc k) refetch)) = 0) \<longrightarrow>
      (\<exists>rb4. refetch_columns eng h2 rb3 refetch =
                      Inr (True, h2 @ map mysql_stmt_fetch_column refetch, rb4)
                  \<and> mysql_bind_set_post_refetch refetch rb4 = Inr rb4
                  \<and> fetch eng h st = Inr (True, h2 @ map mysql_stmt_fetch_column refetch,
                                          st \<lparr> result_binds := rb4 \<rparr>))"
    using fetch_refetch_ok [OF pre h2_def _ _ pf bound rng] by blast
  have d: "return_code eng (h @ [mysql_stmt_bind_result rb1]) = 0
        \<and> (return_code eng h2 = 0 \<or> return_code eng h2 = MYSQL_DATA_TRUNCATED)
        \<and> \<not> (\<forall>k<length refetch.
             return_code eng (h2 @ map mysql_stmt_fetch_column (take (Suc k) refetch)) = 0) \<longrightarrow>
      (\<exists>k<length refetch. \<exists>rb4.
               fetch eng h st = Inr (False, h2 @ map mysql_stmt_fetch_column (take (Suc k) refetch),
                                     st \<lparr> result_binds := rb4 \<rparr>)
               \<and> return_code eng (h2 @ map mysql_stmt_fetch_column (take (Suc k) refetch)) \<noteq> 0
               \<and> (\<forall>j<k. return_code eng
                      (h2 @ map mysql_stmt_fetch_column (take (Suc j) refetch)) = 0))"
    using fetch_refetch_fails [OF pre h2_def _ _ pf bound rng] by blast
  show ?thesis
    unfolding Let_def
    by (intro exI [of _ rb1] exI [of _ refetch] exI [of _ rb3] conjI pre
          pf [unfolded h2_def] a b [unfolded h2_def] c [unfolded h2_def] d [unfolded h2_def])
qed

text \<open>
  On the example statement the fetch succeeds with one refetch of the string column, and
  returns false when binding the results fails, when there are no more rows, and when
  the refetch fails.
\<close>

theorem C3_fetch_outcomes_witness:
  "list_all bound_slot (result_binds example_stmt)
   \<and> map_sum id fst (fetch (example_engine all_succeed) [] example_stmt) = Inr True
   \<and> map_sum id (map snd \<circ> result_binds \<circ> snd \<circ> snd)
        (fetch (example_engine all_succeed) [] example_stmt) =
       Inr [Some (my_number_bind T_int32 42), Some (my_bind_string (Some ''abc''))]
   \<and> map_sum id fst (fetch (example_engine bind_result_fails) [] example_stmt) = Inr False
   \<and> map_sum id fst (fetch (example_engine no_more_rows) [] example_stmt) = Inr False
   \<and> map_sum id fst (fetch (example_engine fetch_column_fails) [] example_stmt) = Inr False"
proof -
  have h: "list_all bound_slot (result_binds example_stmt)"
    by (simp add: example_stmt_def)
  have e: "fetch (example_engine all_succeed) [] example_stmt =
     Inr (True,
       [mysql_stmt_bind_result
          [(update T_int32, Some (my_number_bind T_int32 0)),
           (provisional_bind, Some (my_bind_string (Some [CHR 0x00])))],
        mysql_stmt_fetch, mysql_stmt_fetch_column 1],
       example_stmt \<lparr> result_binds :=
         [(update T_int32, Some (my_number_bind T_int32 42)),
          (provisional_bind \<lparr> length_value := 3, buffer_length := 3 \<rparr>,
           Some (my_bind_string (Some ''abc'')))] \<rparr>)"
    by (simp add: fetch_def example_stmt_def example_engine_def Let_def resize_def
          mysql_bind_set_post_fetch_def engine_store_def overwrite_def provisional_bind_def
          update_def memset_zero_def MYSQL_DATA_TRUNCATED_def my_bind_post_refetch_def)
  have f1: "map_sum id fst (fetch (example_engine bind_result_fails) [] example_stmt) = Inr False"
    by (simp add: fetch_def example_stmt_def example_engine_def Let_def)
  have f2: "map_sum id fst (fetch (example_engine no_more_rows) [] example_stmt) = Inr False"
    by (simp add: fetch_def example_stmt_def example_engine_def Let_def
          MYSQL_DATA_TRUNCATED_def MYSQL_NO_DATA_def)
  have f3: "map_sum id fst (fetch (example_engine fetch_column_fails) [] example_stmt) = Inr False"
    by (simp add: fetch_def example_stmt_def example_engine_def Let_def resize_def
          mysql_bind_set_post_fetch_def engine_store_def overwrite_def
          memset_zero_def MYSQL_DATA_TRUNCATED_def)
  show ?thesis
    using h C3_fetch_outcomes [OF h, of "[]" "example_engine all_succeed"] e f1 f2 f3
    by simp
qed

text \<open>
  Claim C4: \<open>execute\<close> on a statement whose parameter slots are all bound runs
  \<open>pre_execute\<close>, hands the descriptors to the engine, returns false (a value, not an
  exception) when binding the parameters or executing fails, and otherwise runs
  \<open>post_execute\<close> and returns true. In every case the statement keeps its slots bound,
  so that \<open>execute\<close> can be called on it again, with any engine behaviour, and again
  returns a boolean.
\<close>

theorem C4_execute_returns_bool:
  assumes "list_all bound_slot (param_binds st)"
  shows "\<exists>pb. mysql_bind_set_pre_execute (param_binds st) = Inr pb \<and>
     (let h1 = h @ [mysql_stmt_bind_param pb];
          h2 = h @ [mysql_stmt_bind_param pb, mysql_stmt_execute];
          st1 = st \<lparr> param_binds := pb \<rparr>
      in (return_code eng h1 \<noteq> 0 \<longrightarrow> execute eng h st = Inr (False, h1, st1))
       \<and> (return_code eng h1 = 0 \<and> return_code eng h2 \<noteq> 0 \<longrightarrow>
            execute eng h st = Inr (False, h2, st1))
       \<and> (return_code eng h1 = 0 \<and> return_code eng h2 = 0 \<longrightarrow>
            mysql_bind_set_post_execute pb = Inr pb \<and> execute eng h st = Inr (True, h2, st1))
       \<and> list_all bound_slot (param_binds st1)
       \<and> length (param_binds st1) = length (param_binds st)
       \<and> result_binds st1 = result_binds st
       \<and> (\<forall>eng' h'. \<exists>r h'' st''. execute eng' h' st1 = Inr (r, h'', st'')))"
proof -
  from bind_set_pre_execute_bound [OF assms] obtain pb where
    pb: "mysql_bind_set_pre_execute (param_binds st) = Inr pb" "length pb = length (param_binds st)"
        "list_all bound_slot pb" by blast
  have again: "\<forall>eng' h'. \<exists>r h'' st''.
      execute eng' h' (st \<lparr> param_binds := pb \<rparr>) = Inr (r, h'', st'')"
  proof (intro allI)
    fix eng' :: "'a engine" and h'
    have "list_all bound_slot (param_binds (st \<lparr> param_binds := pb \<rparr>))" using pb(3) by simp
    from execute_returns [OF this, of eng' h']
    show "\<exists>r h'' st''. execute eng' h' (st \<lparr> param_binds := pb \<rparr>) = Inr (r, h'', st'')"
      by blast
  qed
  have post: "mysql_bind_set_post_execute pb = Inr pb"
    using pb(3) by (rule bind_set_post_execute_bound)
  show ?thesis
    unfolding Let_def
    using pb execute_result [OF pb(1,3), of eng h] again post
    by (intro exI [of _ pb]) simp
qed

text \<open>
  On the example statement \<open>execute\<close> returns true, returns false when either engine
  call fails, and succeeds when it is called again after a failure.
\<close>

theorem C4_execute_returns_bool_witness:
  "list_all bound_slot (param_binds example_stmt)
   \<and> map_sum id fst (execute (example_engine all_succeed) [] example_stmt) = Inr True
   \<and> map_sum id fst (execute (example_engine bind_param_fails) [] example_stmt) = Inr False
   \<and> map_sum id fst (execute (example_engine execute_fails) [] example_stmt) = Inr False
   \<and> map_sum id fst
        (execute (example_engine all_succeed) []
          (snd (snd (projr (execute (example_engine execute_fails) [] example_stmt))))) = Inr True"
proof -
  have h: "list_all bound_slot (param_binds example_stmt)"
    by (simp add: example_stmt_def)
  have e: "map_sum id fst (execute (example_engine all_succeed) [] example_stmt) = Inr True"
       "map_sum id fst (execute (example_engine bind_param_fails) [] example_stmt) = Inr False"
       "map_sum id fst (execute (example_engine execute_fails) [] example_stmt) = Inr False"
       "map_sum id fst
        (execute (example_engine all_succeed) []
          (snd (snd (projr (execute (example_engine execute_fails) [] example_stmt))))) = Inr True"
    by (simp_all add: execute_def example_stmt_def example_engine_def Let_def
          my_bind_post_execute_def)
  show ?thesis
    using h C4_execute_returns_bool [OF h, of "[]" "example_engine all_succeed"] e
    by simp
qed

text \<open>
  Claim C5: \<open>set_variable\<close> with an index at or beyond the slot count throws
  \<open>out_of_range\<close> and leaves the bind set as it was; with an index below the slot count
  it installs a fresh wrapper for the variable at that index, and changes no descriptor
  and no other slot.
\<close>

theorem C5_set_variable:
  "(idx \<ge> size_bind_set bs \<longrightarrow>
      set_variable idx arg bs = (Some (out_of_range ''Invalid binding index''), bs))
   \<and> (idx < size_bind_set bs \<longrightarrow>
      (\<exists>bs'. set_variable idx arg bs = (None, bs')
         \<and> size_bind_set bs' = size_bind_set bs
         \<and> binds bs' = binds bs
         \<and> snd (bs' ! idx) = Some (make_unique_my_bind arg)
         \<and> (\<forall>j. j \<noteq> idx \<longrightarrow> bs' ! j = bs ! j)))"
  using set_variable_out_of_range [of bs idx arg] set_variable_in_range [of idx bs arg]
  by blast

text \<open>
  On the two result slots of the example statement: index 2 is refused, index 1 is
  rebound.
\<close>

theorem C5_set_variable_witness:
  "(2::nat) \<ge> size_bind_set (result_binds example_stmt)
   \<and> set_variable 2 (string_variable ''v'') (result_binds example_stmt) =
       (Some (out_of_range ''Invalid binding index''), result_binds example_stmt)
   \<and> (1::nat) < size_bind_set (result_binds example_stmt)
   \<and> set_variable 1 (optional_number_variable T_uint8 None) (result_binds example_stmt) =
       (None, [(memset_zero, Some (my_number_bind T_int32 0)),
               (memset_zero, Some (my_optional_number_bind T_uint8 None 0))])"
  using C5_set_variable [where idx = 2 and bs = "result_binds example_stmt"
          and arg = "string_variable ''v''"]
        C5_set_variable [where idx = 1 and bs = "result_binds example_stmt"
          and arg = "optional_number_variable T_uint8 None"]
  by (simp add: example_stmt_def size_bind_set_def set_variable_def)

text \<open>
  Claim C6: \<open>post_fetch\<close> of an optional numeric or optional string slot whose null
  flag is set clears the optional and signals no refetch. When the flag is clear, the
  optional numeric receives the staged value, and the optional string goes on with the
  string finalisation; after \<open>pre_fetch\<close> and the engine's write the optional string
  always holds a string for it to work on.
\<close>

theorem C6_null_clears_optional:
  "(is_null_value b \<longrightarrow>
      my_bind_post_fetch (my_optional_number_bind T ov p) b =
        Inr (False, b, my_optional_number_bind T None p)
      \<and> my_bind_post_fetch (my_bind_optional_string os) b =
        Inr (False, b, my_bind_optional_string None :: 'n my_bind))
   \<and> (\<not> is_null_value b \<longrightarrow>
      my_bind_post_fetch (my_optional_number_bind T ov p) b =
        Inr (False, b, my_optional_number_bind T (Some p) p)
      \<and> my_bind_post_fetch (my_bind_optional_string (Some s)) b =
        (if 0 < length_value b
         then Inr (True, b \<lparr> buffer := buffer_string_bytes, buffer_length := length_value b \<rparr>,
                   my_bind_optional_string (Some (resize (length_value b) s)))
         else Inr (False, b, my_bind_optional_string (Some [])) :: error + bool \<times> MYSQL_BIND \<times> 'n my_bind))
   \<and> (my_bind_pre_fetch (my_bind_optional_string os) b0 = Inr (b1, w1) \<longrightarrow>
        (\<exists>s1. snd (engine_store co (b1, Some (w1 :: 'n my_bind))) = Some (my_bind_optional_string (Some s1))))"
  using optional_string_engaged_after_fetch [of os b0 b1 w1 co]
  by (simp add: Let_def length_resize)

text \<open>
  A null column clears an optional holding 5 and an optional string holding a value; a
  non-null column copies the staged 9 into an empty optional.
\<close>

theorem C6_null_clears_optional_witness:
  "is_null_value (provisional_bind \<lparr> is_null_value := True \<rparr>)
   \<and> my_bind_post_fetch (my_optional_number_bind T_int32 (Some 5) (9::int))
        (provisional_bind \<lparr> is_null_value := True \<rparr>) =
       Inr (False, provisional_bind \<lparr> is_null_value := True \<rparr>, my_optional_number_bind T_int32 None 9)
   \<and> my_bind_post_fetch (my_bind_optional_string (Some ''x'') :: int my_bind)
        (provisional_bind \<lparr> is_null_value := True \<rparr>) =
       Inr (False, provisional_bind \<lparr> is_null_value := True \<rparr>, my_bind_optional_string None)
   \<and> \<not> is_null_value provisional_bind
   \<and> my_bind_post_fetch (my_optional_number_bind T_int32 None (9::int)) provisional_bind =
       Inr (False, provisional_bind, my_optional_number_bind T_int32 (Some 9) 9)
   \<and> my_bind_pre_fetch (my_bind_optional_string None :: int my_bind) memset_zero =
       Inr (provisional_bind, my_bind_optional_string (Some [CHR 0x00]))"
  using C6_null_clears_optional [where b = "provisional_bind \<lparr> is_null_value := True \<rparr>"
          and T = T_int32 and ov = "Some 5" and p = "9::int" and os = "Some ''x''" and s = "''x''"
          and ?b0.0 = memset_zero and ?b1.0 = provisional_bind
          and ?w1.0 = "my_bind_optional_string (Some [CHR 0x00])" and co = None]
        C6_null_clears_optional [where b = provisional_bind
          and T = T_int32 and ov = None and p = "9::int" and os = None and s = "''x''"
          and ?b0.0 = memset_zero and ?b1.0 = provisional_bind
          and ?w1.0 = "my_bind_optional_string (Some [CHR 0x00])" and co = None]
  by (simp add: provisional_bind_def memset_zero_def resize_def)

text \<open>
  Claim C7: when the engine rejects the SQL text the constructor throws a
  \<open>runtime_error\<close> that carries the engine's message, and there is no statement; when
  the preparation succeeds the parameter bind set has the size the engine reports, and
  the result bind set has size zero when the statement has no result metadata and the
  number of fields otherwise. (When no handle can be allocated the constructor throws
  \<open>bad_alloc\<close> before preparing.)
\<close>

theorem C7_prepare_failure_is_fatal:
  "(let h2 = h @ [mysql_stmt_init, mysql_stmt_prepare query] in
     (stmt_allocated eng (h @ [mysql_stmt_init]) \<and> return_code eng h2 \<noteq> 0 \<longrightarrow>
        prepared_stmt_ctor eng h query =
          Inl (runtime_error (''Failed to prepare stmt: '' @ mysql_stmt_error eng h2)))
   \<and> (stmt_allocated eng (h @ [mysql_stmt_init]) \<and> return_code eng h2 = 0 \<longrightarrow>
        (\<exists>st. prepared_stmt_ctor eng h query = Inr (h2, st)
           \<and> size_bind_set (param_binds st) = mysql_stmt_param_count eng h2
           \<and> (mysql_stmt_result_metadata eng h2 = None \<longrightarrow> size_bind_set (result_binds st) = 0)
           \<and> (\<forall>result_count. mysql_stmt_result_metadata eng h2 = Some result_count \<longrightarrow>
                 size_bind_set (result_binds st) = result_count)))
   \<and> (\<not> stmt_allocated eng (h @ [mysql_stmt_init]) \<longrightarrow>
        prepared_stmt_ctor eng h query = Inl bad_alloc))"
  unfolding Let_def
  using ctor_result [of eng h query]
  by (auto simp: size_mysql_bind_set)

text \<open>
  A rejected text gives the error with the engine's message; an accepted one gives a
  statement with one unbound parameter slot and two unbound result slots.
\<close>

theorem C7_prepare_failure_is_fatal_witness:
  "stmt_allocated (example_engine prepare_fails) ([] @ [mysql_stmt_init])
   \<and> return_code (example_engine prepare_fails) ([] @ [mysql_stmt_init, mysql_stmt_prepare ''SELEC'']) \<noteq> 0
   \<and> prepared_stmt_ctor (example_engine prepare_fails) [] ''SELEC'' =
       Inl (runtime_error ''Failed to prepare stmt: syntax error'')
   \<and> return_code (example_engine all_succeed) ([] @ [mysql_stmt_init, mysql_stmt_prepare ''SELECT a, b FROM t WHERE id = ?'']) = 0
   \<and> prepared_stmt_ctor (example_engine all_succeed) [] ''SELECT a, b FROM t WHERE id = ?'' =
       Inr ([mysql_stmt_init, mysql_stmt_prepare ''SELECT a, b FROM t WHERE id = ?''],
            \<lparr> param_binds = [(memset_zero, None)],
              result_binds = [(memset_zero, None), (memset_zero, None)] \<rparr>)"
  using C7_prepare_failure_is_fatal [of "[]" "''SELEC''" "example_engine prepare_fails"]
        C7_prepare_failure_is_fatal [of "[]" "''SELECT a, b FROM t WHERE id = ?''" "example_engine all_succeed"]
  by (simp add: example_engine_def prepared_stmt_ctor_def mysql_bind_set_def Let_def numeral_2_eq_2)

text \<open>
  Claim C8: a fresh bind set holds a null wrapper pointer in every slot, and
  \<open>set_variable\<close> changes only the slot it binds, so a slot never bound stays null.
  \<open>pre_execute\<close>, \<open>pre_fetch\<close> and \<open>post_fetch\<close> call through every slot's pointer
  without a test: with a null slot none of them returns normally, and \<open>pre_execute\<close>
  is well defined exactly when every slot is bound.
\<close>

theorem C8_unbound_slot_null_dereference:
  "(\<forall>i<n. snd ((mysql_bind_set n :: 'n slot list) ! i) = None)
   \<and> (\<forall>j. j \<noteq> idx \<longrightarrow> snd (snd (set_variable idx arg bs) ! j) = snd (bs ! j))
   \<and> (i < length bs \<and> snd (bs ! i) = None \<longrightarrow>
        mysql_bind_set_pre_execute bs = Inl null_pointer_dereference
        \<and> mysql_bind_set_pre_fetch bs = Inl null_pointer_dereference
        \<and> (mysql_bind_set_post_fetch bs = Inl null_pointer_dereference
           \<or> mysql_bind_set_post_fetch bs = Inl bad_optional_access))
   \<and> ((\<exists>bs'. mysql_bind_set_pre_execute bs = Inr bs') \<longleftrightarrow> (\<forall>i<length bs. snd (bs ! i) \<noteq> None))"
  using bind_set_pre_execute_null [of i bs] bind_set_pre_fetch_null [of i bs]
    post_fetch_loop_null_error [of i bs 0] bind_set_pre_execute_iff [of bs]
    set_variable_other [of _ idx arg bs]
  by (simp add: mysql_bind_set_nth mysql_bind_set_post_fetch_def)

text \<open>
  A bind set of two slots with only slot 0 bound: each of the three phases dereferences
  the null pointer of slot 1.
\<close>

theorem C8_unbound_slot_null_dereference_witness:
  "(1::nat) < length (snd (set_variable 0 (number_variable T_int32 (5::int)) (mysql_bind_set 2)))
   \<and> snd (snd (set_variable 0 (number_variable T_int32 (5::int)) (mysql_bind_set 2)) ! 1) = None
   \<and> mysql_bind_set_pre_execute (snd (set_variable 0 (number_variable T_int32 (5::int)) (mysql_bind_set 2)))
       = Inl null_pointer_dereference
   \<and> mysql_bind_set_pre_fetch (snd (set_variable 0 (number_variable T_int32 (5::int)) (mysql_bind_set 2)))
       = Inl null_pointer_dereference
   \<and> mysql_bind_set_post_fetch (snd (set_variable 0 (number_variable T_int32 (5::int)) (mysql_bind_set 2)))
       = Inl null_pointer_dereference"
  using C8_unbound_slot_null_dereference [where n = 2 and idx = 0 and i = 1
      and arg = "number_variable T_int32 (5::int)"
      and bs = "snd (set_variable 0 (number_variable T_int32 (5::int)) (mysql_bind_set 2))"]
  by (simp add: set_variable_def mysql_bind_set_def size_bind_set_def numeral_2_eq_2
        mysql_bind_set_post_fetch_def)

text \<open>
  Claim C9: \<open>pre_fetch\<close> of a string slot resizes the bound string to one byte (its
  first byte, or a zero byte when it was empty) whatever it held, and sets the buffer
  length to 1; \<open>pre_fetch\<close> of an optional string slot overwrites the optional with a
  fresh one-byte string whatever it held.
\<close>

theorem C9_pre_fetch_one_byte:
  "my_bind_pre_fetch (my_bind_string (Some s)) b =
     Inr (provisional_bind, my_bind_string (Some (case s of [] \<Rightarrow> [CHR 0x00] | c # cs \<Rightarrow> [c])))
   \<and> buffer_length provisional_bind = 1
   \<and> length (case s of [] \<Rightarrow> [CHR 0x00] | c # cs \<Rightarrow> [c]) = 1
   \<and> my_bind_pre_fetch (my_bind_optional_string os) b =
     Inr (provisional_bind, my_bind_optional_string (Some [CHR 0x00]))"
  by (simp add: length_resize resize_one Let_def provisional_bind_def memset_zero_def split: list.split)

text \<open>
  Claim C10: construction, \<open>execute\<close>, \<open>fetch\<close> and destruction make their engine
  calls while holding the connection's mutex, so that two of them on separate threads
  exclude each other. The constructor breaks this when the engine rejects the SQL text:
  the exception releases the lock of the constructor body before the deleter of
  \<open>stmt\<close> calls \<open>mysql_stmt_close\<close>. Its events are not guarded, and the mutex
  admits a schedule in which that call happens while another thread, inside
  \<open>execute\<close>, holds the mutex. The destructor makes the same call under the lock.
\<close>

theorem C10_failed_prepare_closes_unlocked:
  "prepared_stmt_ctor_events (example_engine prepare_fails) [] ''SELEC'' =
     [Lock, Call mysql_stmt_init, Call (mysql_stmt_prepare ''SELEC''), Unlock, Call mysql_stmt_close]
   \<and> \<not> guarded (prepared_stmt_ctor_events (example_engine prepare_fails) [] ''SELEC'')
   \<and> execute_events (example_engine all_succeed) [] \<lparr> param_binds = [], result_binds = [] \<rparr> =
     Inr [Lock, Call (mysql_stmt_bind_param []), Call mysql_stmt_execute, Unlock]
   \<and> thread_trace True
       [(True, Lock), (True, Call mysql_stmt_init), (True, Call (mysql_stmt_prepare ''SELEC'')),
        (True, Unlock), (False, Lock), (False, Call (mysql_stmt_bind_param [])),
        (True, Call mysql_stmt_close), (False, Call mysql_stmt_execute), (False, Unlock)]
     = prepared_stmt_ctor_events (example_engine prepare_fails) [] ''SELEC''
   \<and> Inr (thread_trace False
       [(True, Lock), (True, Call mysql_stmt_init), (True, Call (mysql_stmt_prepare ''SELEC'')),
        (True, Unlock), (False, Lock), (False, Call (mysql_stmt_bind_param [])),
        (True, Call mysql_stmt_close), (False, Call mysql_stmt_execute), (False, Unlock)])
     = execute_events (example_engine all_succeed) [] \<lparr> param_binds = [], result_binds = [] \<rparr>
   \<and> admissible None
       [(True, Lock), (True, Call mysql_stmt_init), (True, Call (mysql_stmt_prepare ''SELEC'')),
        (True, Unlock), (False, Lock), (False, Call (mysql_stmt_bind_param [])),
        (True, Call mysql_stmt_close), (False, Call mysql_stmt_execute), (False, Unlock)]
   \<and> \<not> exclusive None
       [(True, Lock), (True, Call mysql_stmt_init), (True, Call (mysql_stmt_prepare ''SELEC'')),
        (True, Unlock), (False, Lock), (False, Call (mysql_stmt_bind_param [])),
        (True, Call mysql_stmt_close), (False, Call mysql_stmt_execute), (False, Unlock)]
   \<and> guarded (destructor_events :: int event list)"
  by (simp add: prepared_stmt_ctor_events_def execute_events_def execute_def example_engine_def
        with_lock_def guarded_def thread_trace_def destructor_events_def Let_def)

end
